theory Spec2Isabelle
  imports Main
begin

section \<open>Data model (types/interfaces.ts)\<close>

text \<open>
  The three provider identifiers \<^verbatim>\<open>'openai' | 'azure' | 'local'\<close>. The type is closed, as
  the TypeScript union is.
\<close>

datatype provider_id = P_openai | P_azure | P_local

fun provider_name :: "provider_id \<Rightarrow> string" where
  "provider_name P_openai = ''openai''"
| "provider_name P_azure = ''azure''"
| "provider_name P_local = ''local''"

text \<open>
  \<^verbatim>\<open>LLMProviderConfig\<close>: four optional strings. \<open>None\<close> is an absent property.
\<close>

record LLMProviderConfig =
  apiKey :: "string option"
  baseUrl :: "string option"
  model :: "string option"
  apiVersion :: "string option"

text \<open>The anonymous object type of \<^verbatim>\<open>AppConfig.providers\<close>: three optional blocks.\<close>

record Providers =
  openai :: "LLMProviderConfig option"
  azure :: "LLMProviderConfig option"
  local :: "LLMProviderConfig option"

record AppConfig =
  defaultProvider :: provider_id
  providers :: Providers

record LLMUsage =
  promptTokens :: "int option"
  completionTokens :: "int option"
  totalTokens :: "int option"

record LLMResponse =
  content :: "string option"
  error :: "string option"
  usage :: "LLMUsage option"

text \<open>
  Faults. \<open>Error m\<close> is a JavaScript \<^verbatim>\<open>Error\<close> with message \<open>m\<close>; the others are the
  faults of the schema library, of \<^verbatim>\<open>JSON.parse\<close> and of the file system.
\<close>

datatype fault = Error string | ZodError | SyntaxError | FsError string

text \<open>JavaScript truthiness of an optional string: present and not empty.\<close>

fun truthy :: "string option \<Rightarrow> bool" where
  "truthy None = False"
| "truthy (Some s) = (s \<noteq> [])"

text \<open>
  Object spread \<^verbatim>\<open>{...a, ...b}\<close> on provider blocks: every property of \<open>b\<close>
  overrides the one of \<open>a\<close>. Spreading \<^verbatim>\<open>undefined\<close> contributes nothing.
\<close>

definition over :: "'a option \<Rightarrow> 'a option \<Rightarrow> 'a option" where
  "over a b = (case b of None \<Rightarrow> a | Some v \<Rightarrow> Some v)"

definition spread :: "LLMProviderConfig \<Rightarrow> LLMProviderConfig \<Rightarrow> LLMProviderConfig" where
  "spread a b =
     \<lparr> apiKey = over (apiKey a) (apiKey b),
       baseUrl = over (baseUrl a) (baseUrl b),
       model = over (model a) (model b),
       apiVersion = over (apiVersion a) (apiVersion b) \<rparr>"

definition emptyBlock :: LLMProviderConfig where
  "emptyBlock = \<lparr> apiKey = None, baseUrl = None, model = None, apiVersion = None \<rparr>"

definition orEmpty :: "LLMProviderConfig option \<Rightarrow> LLMProviderConfig" where
  "orEmpty b = (case b of None \<Rightarrow> emptyBlock | Some c \<Rightarrow> c)"

text \<open>
  \<^verbatim>\<open>Partial<LLMProviderConfig>\<close>, the type of the update that a caller hands to
  \<^verbatim>\<open>updateProviderConfig\<close>. On the right of a spread a property has three states: it is
  absent, it is present with the value \<^verbatim>\<open>undefined\<close> (the type admits
  \<^verbatim>\<open>{model: undefined}\<close>), or it is present with a string. A property that is present with
  \<^verbatim>\<open>undefined\<close> overrides the property on the left, and the result reads as
  \<^verbatim>\<open>undefined\<close>.

  In every other object of the program a property that is present with \<^verbatim>\<open>undefined\<close> is
  indistinguishable from an absent one: reads give \<^verbatim>\<open>undefined\<close>, the schema accepts both
  alike, \<^verbatim>\<open>JSON.stringify\<close> writes neither, and on the left of a spread both give way
  to the right. The only objects on the right of a spread are the caller's update and
  the schema's result for a parsed file, which has no \<^verbatim>\<open>undefined\<close>. So those objects
  keep \<open>None\<close> for both.
\<close>

datatype partial_field = Absent | Undefined | Given string

record PartialLLMProviderConfig =
  upd_apiKey :: partial_field
  upd_baseUrl :: partial_field
  upd_model :: partial_field
  upd_apiVersion :: partial_field

definition overPartial :: "string option \<Rightarrow> partial_field \<Rightarrow> string option" where
  "overPartial a b = (case b of Absent \<Rightarrow> a | Undefined \<Rightarrow> None | Given v \<Rightarrow> Some v)"

definition spreadPartial ::
  "LLMProviderConfig \<Rightarrow> PartialLLMProviderConfig \<Rightarrow> LLMProviderConfig" where
  "spreadPartial a b =
     \<lparr> apiKey = overPartial (apiKey a) (upd_apiKey b),
       baseUrl = overPartial (baseUrl a) (upd_baseUrl b),
       model = overPartial (model a) (upd_model b),
       apiVersion = overPartial (apiVersion a) (upd_apiVersion b) \<rparr>"

definition emptyUpdate :: PartialLLMProviderConfig where
  "emptyUpdate =
     \<lparr> upd_apiKey = Absent, upd_baseUrl = Absent, upd_model = Absent, upd_apiVersion = Absent \<rparr>"

section \<open>JSON values and the validation schemas (types/zodSchemas.ts)\<close>

text \<open>
  A parsed JSON value. An object lists each key once; \<open>map_of\<close> reads a property.
  Numbers are not inspected by any schema here.
\<close>

datatype json =
  JNull | JBool bool | JNumber int | JString string
| JArray "json list" | JObject "(string \<times> json) list"

text \<open>
  The library check behind \<^verbatim>\<open>z.string().url()\<close> is not part of the repository; it is a
  parameter \<open>isUrl\<close> of every function that validates.

  \<^verbatim>\<open>z.string().optional()\<close>: an absent property is accepted, a present one must be a string.
\<close>

definition optionalString :: "json option \<Rightarrow> fault + string option" where
  "optionalString v =
     (case v of None \<Rightarrow> Inr None
      | Some (JString s) \<Rightarrow> Inr (Some s)
      | Some _ \<Rightarrow> Inl ZodError)"

definition optionalUrl :: "(string \<Rightarrow> bool) \<Rightarrow> json option \<Rightarrow> fault + string option" where
  "optionalUrl isUrl v =
     (case v of None \<Rightarrow> Inr None
      | Some (JString s) \<Rightarrow> if isUrl s then Inr (Some s) else Inl ZodError
      | Some _ \<Rightarrow> Inl ZodError)"

text \<open>
  \<^verbatim>\<open>LLMProviderConfigSchema\<close> declares \<^verbatim>\<open>apiKey\<close>, \<^verbatim>\<open>baseUrl\<close> and \<^verbatim>\<open>model\<close>. An object schema
  drops every key it does not declare, so the result never has \<^verbatim>\<open>apiVersion\<close>.
\<close>

definition LLMProviderConfigSchema :: "(string \<Rightarrow> bool) \<Rightarrow> json \<Rightarrow> fault + LLMProviderConfig" where
  "LLMProviderConfigSchema isUrl j =
     (case j of
        JObject kv \<Rightarrow>
          (case optionalString (map_of kv ''apiKey'') of
             Inl e \<Rightarrow> Inl e
           | Inr k \<Rightarrow>
              (case optionalUrl isUrl (map_of kv ''baseUrl'') of
                 Inl e \<Rightarrow> Inl e
               | Inr b \<Rightarrow>
                  (case optionalString (map_of kv ''model'') of
                     Inl e \<Rightarrow> Inl e
                   | Inr m \<Rightarrow>
                      Inr \<lparr> apiKey = k, baseUrl = b, model = m, apiVersion = None \<rparr>)))
      | _ \<Rightarrow> Inl ZodError)"

text \<open>\<^verbatim>\<open>LLMProviderConfigSchema.optional()\<close>.\<close>

definition optionalBlock ::
  "(string \<Rightarrow> bool) \<Rightarrow> json option \<Rightarrow> fault + LLMProviderConfig option" where
  "optionalBlock isUrl v =
     (case v of None \<Rightarrow> Inr None
      | Some j \<Rightarrow> (case LLMProviderConfigSchema isUrl j of
                    Inl e \<Rightarrow> Inl e | Inr c \<Rightarrow> Inr (Some c)))"

text \<open>\<^verbatim>\<open>z.enum(['openai', 'azure', 'local']).default('openai')\<close>.\<close>

definition defaultProviderSchema :: "json option \<Rightarrow> fault + provider_id" where
  "defaultProviderSchema v =
     (case v of None \<Rightarrow> Inr P_openai
      | Some (JString s) \<Rightarrow>
          if s = ''openai'' then Inr P_openai
          else if s = ''azure'' then Inr P_azure
          else if s = ''local'' then Inr P_local
          else Inl ZodError
      | Some _ \<Rightarrow> Inl ZodError)"

definition providersSchema :: "(string \<Rightarrow> bool) \<Rightarrow> json option \<Rightarrow> fault + Providers" where
  "providersSchema isUrl v =
     (case v of
        Some (JObject kv) \<Rightarrow>
          (case optionalBlock isUrl (map_of kv ''openai'') of
             Inl e \<Rightarrow> Inl e
           | Inr bo \<Rightarrow>
              (case optionalBlock isUrl (map_of kv ''azure'') of
                 Inl e \<Rightarrow> Inl e
               | Inr ba \<Rightarrow>
                  (case optionalBlock isUrl (map_of kv ''local'') of
                     Inl e \<Rightarrow> Inl e
                   | Inr bl \<Rightarrow> Inr \<lparr> openai = bo, azure = ba, local = bl \<rparr>)))
      | _ \<Rightarrow> Inl ZodError)"

definition AppConfigSchema :: "(string \<Rightarrow> bool) \<Rightarrow> json \<Rightarrow> fault + AppConfig" where
  "AppConfigSchema isUrl j =
     (case j of
        JObject kv \<Rightarrow>
          (case defaultProviderSchema (map_of kv ''defaultProvider'') of
             Inl e \<Rightarrow> Inl e
           | Inr d \<Rightarrow>
              (case providersSchema isUrl (map_of kv ''providers'') of
                 Inl e \<Rightarrow> Inl e
               | Inr p \<Rightarrow> Inr \<lparr> defaultProvider = d, providers = p \<rparr>))
      | _ \<Rightarrow> Inl ZodError)"

text \<open>
  An in-memory configuration object seen as a JSON value: the input of
  \<^verbatim>\<open>AppConfigSchema.parse(config)\<close> and the output of \<^verbatim>\<open>JSON.stringify\<close>. Absent
  properties are not listed.
\<close>

definition strProp :: "string \<Rightarrow> string option \<Rightarrow> (string \<times> json) list" where
  "strProp k v = (case v of None \<Rightarrow> [] | Some s \<Rightarrow> [(k, JString s)])"

definition blockJson :: "LLMProviderConfig \<Rightarrow> json" where
  "blockJson c =
     JObject (strProp ''apiKey'' (apiKey c) @ strProp ''baseUrl'' (baseUrl c)
              @ strProp ''model'' (model c) @ strProp ''apiVersion'' (apiVersion c))"

definition blockProp :: "string \<Rightarrow> LLMProviderConfig option \<Rightarrow> (string \<times> json) list" where
  "blockProp k v = (case v of None \<Rightarrow> [] | Some c \<Rightarrow> [(k, blockJson c)])"

definition configJson :: "AppConfig \<Rightarrow> json" where
  "configJson cfg =
     JObject [(''defaultProvider'', JString (provider_name (defaultProvider cfg))),
              (''providers'',
               JObject (blockProp ''openai'' (openai (providers cfg))
                        @ blockProp ''azure'' (azure (providers cfg))
                        @ blockProp ''local'' (local (providers cfg))))]"

section \<open>The file system under the configuration path\<close>

text \<open>
  The text of a file, by what \<^verbatim>\<open>JSON.parse\<close> does with it: \<open>Malformed t\<close> is a text
  that \<^verbatim>\<open>JSON.parse\<close> rejects (the empty text among them), \<open>Wellformed j\<close> is a text that it
  reads as the value \<open>j\<close>. \<^verbatim>\<open>JSON.stringify\<close> of a value writes a text that reads back
  as that value.
\<close>

datatype file_text = Malformed string | Wellformed json

definition JSON_parse :: "file_text \<Rightarrow> fault + json" where
  "JSON_parse t = (case t of Malformed _ \<Rightarrow> Inl SyntaxError | Wellformed j \<Rightarrow> Inr j)"

definition JSON_stringify :: "json \<Rightarrow> file_text" where
  "JSON_stringify j = Wellformed j"

text \<open>
  The configuration directory is absent, or present with or without the configuration
  file. The three flags are the answers of the operating system to \<^verbatim>\<open>mkdir\<close>,
  \<^verbatim>\<open>readFile\<close> and \<^verbatim>\<open>writeFile\<close>.
\<close>

datatype config_dir = NoDir | Dir "file_text option"

record fsys =
  dir :: config_dir
  mkdir_ok :: bool
  read_ok :: bool
  write_ok :: bool

definition mkdir :: "fsys \<Rightarrow> fault + fsys" where
  "mkdir f =
     (case dir f of
        Dir _ \<Rightarrow> Inr f
      | NoDir \<Rightarrow> if mkdir_ok f then Inr (f\<lparr>dir := Dir None\<rparr>) else Inl (FsError ''EACCES''))"

definition readFile :: "fsys \<Rightarrow> fault + file_text" where
  "readFile f =
     (case dir f of
        NoDir \<Rightarrow> Inl (FsError ''ENOENT'')
      | Dir None \<Rightarrow> Inl (FsError ''ENOENT'')
      | Dir (Some t) \<Rightarrow> if read_ok f then Inr t else Inl (FsError ''EACCES''))"

definition writeFile :: "fsys \<Rightarrow> file_text \<Rightarrow> fault + fsys" where
  "writeFile f t =
     (case dir f of
        NoDir \<Rightarrow> Inl (FsError ''ENOENT'')
      | Dir _ \<Rightarrow> if write_ok f then Inr (f\<lparr>dir := Dir (Some t)\<rparr>) else Inl (FsError ''EACCES''))"

section \<open>ConfigService (services/configService.ts)\<close>

text \<open>
  The state of the process that the service touches: the module-level object
  \<^verbatim>\<open>defaultConfig\<close> (a \<^verbatim>\<open>const\<close> binding to a mutable object) and the file system.
\<close>

record process =
  defaultConfig :: AppConfig
  fs :: fsys

definition defaultConfig_init :: AppConfig where
  "defaultConfig_init =
     \<lparr> defaultProvider = P_openai,
       providers =
         \<lparr> openai = Some (emptyBlock\<lparr>model := Some ''gpt-3.5-turbo''\<rparr>),
           azure = Some emptyBlock,
           local = Some (emptyBlock\<lparr>baseUrl := Some ''http://localhost:1234/v1'',
                                     model := Some ''local-model''\<rparr>) \<rparr> \<rparr>"

definition startup :: "fsys \<Rightarrow> process" where
  "startup f = \<lparr> defaultConfig = defaultConfig_init, fs = f \<rparr>"

text \<open>\<^verbatim>\<open>ensureConfigDirExists\<close>: \<^verbatim>\<open>access\<close>, and \<^verbatim>\<open>mkdir\<close> when it fails.\<close>

definition ensureConfigDirExists :: "fsys \<Rightarrow> fault + fsys" where
  "ensureConfigDirExists f = (case dir f of Dir _ \<Rightarrow> Inr f | NoDir \<Rightarrow> mkdir f)"

text \<open>
  \<^verbatim>\<open>saveConfig\<close>: validate, ensure the directory, write. Every fault is caught and
  logged, so the result is only the new state.
\<close>

definition saveConfig :: "(string \<Rightarrow> bool) \<Rightarrow> AppConfig \<Rightarrow> process \<Rightarrow> process" where
  "saveConfig isUrl config s =
     (case AppConfigSchema isUrl (configJson config) of
        Inl e \<Rightarrow> s
      | Inr validatedConfig \<Rightarrow>
          (case ensureConfigDirExists (fs s) of
             Inl e \<Rightarrow> s
           | Inr f1 \<Rightarrow>
              (case writeFile f1 (JSON_stringify (configJson validatedConfig)) of
                 Inl e \<Rightarrow> s\<lparr>fs := f1\<rparr>
               | Inr f2 \<Rightarrow> s\<lparr>fs := f2\<rparr>)))"

text \<open>
  What \<^verbatim>\<open>loadConfig\<close> returns is a reference: to the module-level \<^verbatim>\<open>defaultConfig\<close>
  object itself on every failure path, to a fresh merged object on success.
\<close>

datatype config_ref = DefaultConfigObject | FreshObject AppConfig

definition deref :: "process \<Rightarrow> config_ref \<Rightarrow> AppConfig" where
  "deref s r = (case r of DefaultConfigObject \<Rightarrow> defaultConfig s | FreshObject c \<Rightarrow> c)"

definition mergeOverDefault :: "AppConfig \<Rightarrow> AppConfig \<Rightarrow> AppConfig" where
  "mergeOverDefault d loadedConfig =
     \<lparr> defaultProvider = defaultProvider loadedConfig,
       providers =
         \<lparr> openai = Some (spread (orEmpty (openai (providers d)))
                                 (orEmpty (openai (providers loadedConfig)))),
           azure = Some (spread (orEmpty (azure (providers d)))
                                (orEmpty (azure (providers loadedConfig)))),
           local = Some (spread (orEmpty (local (providers d)))
                                (orEmpty (local (providers loadedConfig)))) \<rparr> \<rparr>"

definition loadConfig :: "(string \<Rightarrow> bool) \<Rightarrow> process \<Rightarrow> config_ref \<times> process" where
  "loadConfig isUrl s =
     (case ensureConfigDirExists (fs s) of
        Inl e \<Rightarrow> (DefaultConfigObject, saveConfig isUrl (defaultConfig s) s)
      | Inr f1 \<Rightarrow>
          (let s1 = s\<lparr>fs := f1\<rparr> in
           case readFile f1 of
             Inl e \<Rightarrow> (DefaultConfigObject, saveConfig isUrl (defaultConfig s1) s1)
           | Inr fileContent \<Rightarrow>
              (case JSON_parse fileContent of
                 Inl e \<Rightarrow> (DefaultConfigObject, saveConfig isUrl (defaultConfig s1) s1)
               | Inr parsedJson \<Rightarrow>
                  (case AppConfigSchema isUrl parsedJson of
                     Inr loadedConfig \<Rightarrow>
                       (FreshObject (mergeOverDefault (defaultConfig s1) loadedConfig), s1)
                   | Inl e \<Rightarrow>
                       (DefaultConfigObject, saveConfig isUrl (defaultConfig s1) s1)))))"

text \<open>
  \<^verbatim>\<open>loadConfig\<close> as a value: the object behind the returned reference.
\<close>

definition loadedConfig :: "(string \<Rightarrow> bool) \<Rightarrow> process \<Rightarrow> AppConfig" where
  "loadedConfig isUrl s = (case loadConfig isUrl s of (r, s1) \<Rightarrow> deref s1 r)"

fun getBlock :: "provider_id \<Rightarrow> Providers \<Rightarrow> LLMProviderConfig option" where
  "getBlock P_openai p = openai p"
| "getBlock P_azure p = azure p"
| "getBlock P_local p = local p"

fun setBlock :: "provider_id \<Rightarrow> LLMProviderConfig \<Rightarrow> Providers \<Rightarrow> Providers" where
  "setBlock P_openai c p = p\<lparr>openai := Some c\<rparr>"
| "setBlock P_azure c p = p\<lparr>azure := Some c\<rparr>"
| "setBlock P_local c p = p\<lparr>local := Some c\<rparr>"

text \<open>
  \<^verbatim>\<open>updateProviderConfig\<close> and \<^verbatim>\<open>setDefaultProvider\<close> assign into the object that
  \<^verbatim>\<open>loadConfig\<close> returned. When that object is \<^verbatim>\<open>defaultConfig\<close> itself, the assignment
  changes the module-level object for the rest of the process.
\<close>

definition assign :: "config_ref \<Rightarrow> AppConfig \<Rightarrow> process \<Rightarrow> process" where
  "assign r c s = (case r of DefaultConfigObject \<Rightarrow> s\<lparr>defaultConfig := c\<rparr> | FreshObject _ \<Rightarrow> s)"

definition updateProviderConfig ::
  "(string \<Rightarrow> bool) \<Rightarrow> provider_id \<Rightarrow> PartialLLMProviderConfig \<Rightarrow> process \<Rightarrow> process" where
  "updateProviderConfig isUrl providerName updateData s =
     (case loadConfig isUrl s of
        (r, s1) \<Rightarrow>
          (let currentConfig = deref s1 r;
               providerConfig = orEmpty (getBlock providerName (providers currentConfig));
               currentConfig' =
                 currentConfig\<lparr>providers :=
                   setBlock providerName (spreadPartial providerConfig updateData)
                     (providers currentConfig)\<rparr>
           in saveConfig isUrl currentConfig' (assign r currentConfig' s1)))"

definition setDefaultProvider :: "(string \<Rightarrow> bool) \<Rightarrow> provider_id \<Rightarrow> process \<Rightarrow> process" where
  "setDefaultProvider isUrl providerName s =
     (case loadConfig isUrl s of
        (r, s1) \<Rightarrow>
          (let currentConfig' = (deref s1 r)\<lparr>defaultProvider := providerName\<rparr>
           in saveConfig isUrl currentConfig' (assign r currentConfig' s1)))"

section \<open>The chat-completion backend\<close>

text \<open>
  The SDK is an external collaborator. A client handle records what its constructor was
  given; the backend is a parameter \<open>backend\<close> that answers a request with a completion
  or throws an error with a message (\<open>Inl\<close>).
\<close>

record AzureOptions =
  opt_apiKey :: string
  opt_deployment :: string
  opt_apiVersion :: string
  opt_endpoint :: string

datatype sdk_client = OpenAI string | AzureOpenAI AzureOptions

datatype role = System | User

record chat_request =
  req_model :: string
  messages :: "(role \<times> string) list"

datatype chat_message = ChatMessage (msg_content: "string option")

datatype choice = Choice (message: "chat_message option")

record CompletionUsage =
  prompt_tokens :: int
  completion_tokens :: int
  total_tokens :: int

record completion =
  choices :: "choice list"
  completion_usage :: "CompletionUsage option"

type_synonym backend = "sdk_client \<Rightarrow> chat_request \<Rightarrow> string + completion"

text \<open>\<^verbatim>\<open>a || b\<close> for an optional string \<open>a\<close> and a string \<open>b\<close>.\<close>

definition orElse :: "string option \<Rightarrow> string \<Rightarrow> string" where
  "orElse a b = (case a of None \<Rightarrow> b | Some x \<Rightarrow> if x = [] then b else x)"

text \<open>\<^verbatim>\<open>completion.choices[0]?.message?.content || ''\<close>.\<close>

definition responseContent :: "completion \<Rightarrow> string" where
  "responseContent c =
     orElse (case choices c of
               [] \<Rightarrow> None
             | ch # _ \<Rightarrow> (case message ch of None \<Rightarrow> None | Some m \<Rightarrow> msg_content m))
            []"

definition successResponse :: "completion \<Rightarrow> LLMResponse" where
  "successResponse c =
     \<lparr> content = Some (responseContent c),
       error = None,
       usage = Some \<lparr> promptTokens = map_option prompt_tokens (completion_usage c),
                      completionTokens = map_option completion_tokens (completion_usage c),
                      totalTokens = map_option total_tokens (completion_usage c) \<rparr> \<rparr>"

definition failureResponse :: "string \<Rightarrow> LLMResponse" where
  "failureResponse m = \<lparr> content = None, error = Some m, usage = None \<rparr>"

text \<open>The \<^verbatim>\<open>try { ... create ... } catch { ... }\<close> block shared by all four operations.\<close>

definition tryCreate :: "backend \<Rightarrow> sdk_client \<Rightarrow> chat_request \<Rightarrow> LLMResponse" where
  "tryCreate backend c req =
     (case backend c req of Inl m \<Rightarrow> failureResponse m | Inr cmpl \<Rightarrow> successResponse cmpl)"

section \<open>OpenAIProvider (llms/providers/oppenai.ts)\<close>

definition OPENAI_GENERATE_SYSTEM_PROMPT :: string where
  \<open>OPENAI_GENERATE_SYSTEM_PROMPT =
     ''You are a command-line expert. Generate a concise and accurate shell command based on the following request. Return only the command itself, with no additional explanation or markdown. If you cannot generate a command, return "Error: Cannot generate command.".''\<close>

definition EXPLAIN_SYSTEM_PROMPT :: string where
  "EXPLAIN_SYSTEM_PROMPT =
     ''You are a command-line expert. Explain the following shell command clearly and concisely. Focus on its main function and important parameters.''"

text \<open>
  The private fields of the class. The source's field \<^verbatim>\<open>openai\<close> is \<open>oa_openai\<close> here,
  and the other fields carry the same prefix.
\<close>

record OpenAIProvider =
  oa_openai :: "sdk_client option"
  oa_activeConfig :: "LLMProviderConfig option"
  oa_appConfig :: "AppConfig option"

definition new_OpenAIProvider :: OpenAIProvider where
  "new_OpenAIProvider = \<lparr> oa_openai = None, oa_activeConfig = None, oa_appConfig = None \<rparr>"

text \<open>
  \<^verbatim>\<open>initializeClient\<close> returns at once when the client is set up; otherwise it loads the
  configuration and throws when the \<^verbatim>\<open>openai\<close> block has no truthy \<^verbatim>\<open>apiKey\<close>.
\<close>

definition OPENAI_NOT_CONFIGURED :: string where
  "OPENAI_NOT_CONFIGURED = ''API key for OpenAI is not configured. Run the `configure` command.''"

definition OpenAI_initializeClient ::
  "(string \<Rightarrow> bool) \<Rightarrow> OpenAIProvider \<Rightarrow> process \<Rightarrow> (fault + unit) \<times> OpenAIProvider \<times> process" where
  \<open>OpenAI_initializeClient isUrl p s =
     (if oa_openai p \<noteq> None \<and> oa_activeConfig p \<noteq> None then (Inr (), p, s)
      else
        (case loadConfig isUrl s of
           (r, s1) \<Rightarrow>
             (let p1 = p\<lparr>oa_appConfig := Some (deref s1 r)\<rparr>;
                  openaiSpecificConfig = openai (providers (deref s1 r))
              in case Option.bind openaiSpecificConfig apiKey of
                   None \<Rightarrow> (Inl (Error OPENAI_NOT_CONFIGURED), p1, s1)
                 | Some k \<Rightarrow>
                     if k = [] then (Inl (Error OPENAI_NOT_CONFIGURED), p1, s1)
                     else
                       (Inr (), p1\<lparr>oa_activeConfig := openaiSpecificConfig,
                                   oa_openai := Some (OpenAI k)\<rparr>, s1))))\<close>

definition OpenAI_getModel :: "OpenAIProvider \<Rightarrow> string option \<Rightarrow> string" where
  "OpenAI_getModel p userModel =
     orElse userModel (orElse (Option.bind (oa_activeConfig p) model) ''gpt-3.5-turbo'')"

definition OpenAI_generate ::
  "(string \<Rightarrow> bool) \<Rightarrow> backend \<Rightarrow> string \<Rightarrow> string option \<Rightarrow> OpenAIProvider \<Rightarrow> process
     \<Rightarrow> (fault + LLMResponse) \<times> OpenAIProvider \<times> process" where
  "OpenAI_generate isUrl backend promptContent userModel p s =
     (case OpenAI_initializeClient isUrl p s of
        (Inl e, p1, s1) \<Rightarrow> (Inl e, p1, s1)
      | (Inr _, p1, s1) \<Rightarrow>
          (case oa_openai p1 of
             None \<Rightarrow> (Inl (Error ''OpenAI client not initialized.''), p1, s1)
           | Some c \<Rightarrow>
              (Inr (tryCreate backend c
                      \<lparr> req_model = OpenAI_getModel p1 userModel,
                        messages = [(System, OPENAI_GENERATE_SYSTEM_PROMPT),
                                    (User, promptContent)] \<rparr>), p1, s1)))"

definition OpenAI_explain ::
  "(string \<Rightarrow> bool) \<Rightarrow> backend \<Rightarrow> string \<Rightarrow> string option \<Rightarrow> OpenAIProvider \<Rightarrow> process
     \<Rightarrow> (fault + LLMResponse) \<times> OpenAIProvider \<times> process" where
  "OpenAI_explain isUrl backend command userModel p s =
     (case OpenAI_initializeClient isUrl p s of
        (Inl e, p1, s1) \<Rightarrow> (Inl e, p1, s1)
      | (Inr _, p1, s1) \<Rightarrow>
          (case oa_openai p1 of
             None \<Rightarrow> (Inl (Error ''OpenAI client not initialized.''), p1, s1)
           | Some c \<Rightarrow>
              (Inr (tryCreate backend c
                      \<lparr> req_model = OpenAI_getModel p1 userModel,
                        messages = [(System, EXPLAIN_SYSTEM_PROMPT),
                                    (User, ''Explain the following command: '' @ command)] \<rparr>),
               p1, s1)))"

section \<open>AzureOpenAIProvider (llms/providers/azureOpenai.ts)\<close>

definition AZURE_GENERATE_SYSTEM_PROMPT :: string where
  "AZURE_GENERATE_SYSTEM_PROMPT =
     ''You are a terminal assistant. Turn the natural language instructions into a terminal command. By default always only output code, and in a code block. However, if the user is clearly asking a question then answer it very briefly and well. Consider when the user request references a previous request.''"

record AzureOpenAIProvider =
  az_client :: "sdk_client option"
  az_appConfig :: "AppConfig option"
  az_activeConfig :: "LLMProviderConfig option"
  az_deploymentName :: "string option"

definition new_AzureOpenAIProvider :: AzureOpenAIProvider where
  "new_AzureOpenAIProvider =
     \<lparr> az_client = None, az_appConfig = None, az_activeConfig = None, az_deploymentName = None \<rparr>"

definition AZURE_NOT_CONFIGURED :: string where
  "AZURE_NOT_CONFIGURED =
     ''API key, endpoint (baseUrl), or deployment name (model) of Azure OpenAI are not configured. Run the `configure` command''"

definition Azure_initializeClient ::
  "(string \<Rightarrow> bool) \<Rightarrow> AzureOpenAIProvider \<Rightarrow> process
     \<Rightarrow> (fault + unit) \<times> AzureOpenAIProvider \<times> process" where
  "Azure_initializeClient isUrl p s =
     (if az_client p \<noteq> None \<and> az_activeConfig p \<noteq> None then (Inr (), p, s)
      else
        (case loadConfig isUrl s of
           (r, s1) \<Rightarrow>
             (let p1 = p\<lparr>az_appConfig := Some (deref s1 r)\<rparr>;
                  azureConfig = azure (providers (deref s1 r))
              in if \<not> truthy (Option.bind azureConfig apiKey)
                    \<or> \<not> truthy (Option.bind azureConfig baseUrl)
                    \<or> \<not> truthy (Option.bind azureConfig model)
                 then (Inl (Error AZURE_NOT_CONFIGURED), p1, s1)
                 else
                   (Inr (),
                    p1\<lparr>az_activeConfig := azureConfig,
                       az_deploymentName := Option.bind azureConfig model,
                       az_client := Some (AzureOpenAI
                         \<lparr> opt_apiKey = orElse (Option.bind azureConfig apiKey) [],
                           opt_deployment = orElse (Option.bind azureConfig model) [],
                           opt_apiVersion =
                             orElse (Option.bind azureConfig apiVersion) ''2025-03-01-preview'',
                           opt_endpoint = orElse (Option.bind azureConfig baseUrl) [] \<rparr>)\<rparr>,
                    s1))))"

definition Azure_getModel :: "AzureOpenAIProvider \<Rightarrow> string option \<Rightarrow> string" where
  "Azure_getModel p userModel = orElse userModel (orElse (az_deploymentName p) ''gpt-4o'')"

definition Azure_generate ::
  "(string \<Rightarrow> bool) \<Rightarrow> backend \<Rightarrow> string \<Rightarrow> string option \<Rightarrow> AzureOpenAIProvider \<Rightarrow> process
     \<Rightarrow> (fault + LLMResponse) \<times> AzureOpenAIProvider \<times> process" where
  "Azure_generate isUrl backend promptContent userModel p s =
     (case Azure_initializeClient isUrl p s of
        (Inl e, p1, s1) \<Rightarrow> (Inl e, p1, s1)
      | (Inr _, p1, s1) \<Rightarrow>
          (case az_client p1 of
             None \<Rightarrow> (Inl (Error ''Azure OpenAI client is not initialized.''), p1, s1)
           | Some c \<Rightarrow>
              (Inr (tryCreate backend c
                      \<lparr> req_model = Azure_getModel p1 userModel,
                        messages = [(System, AZURE_GENERATE_SYSTEM_PROMPT),
                                    (User, promptContent)] \<rparr>), p1, s1)))"

definition Azure_explain ::
  "(string \<Rightarrow> bool) \<Rightarrow> backend \<Rightarrow> string \<Rightarrow> string option \<Rightarrow> AzureOpenAIProvider \<Rightarrow> process
     \<Rightarrow> (fault + LLMResponse) \<times> AzureOpenAIProvider \<times> process" where
  "Azure_explain isUrl backend command userModel p s =
     (case Azure_initializeClient isUrl p s of
        (Inl e, p1, s1) \<Rightarrow> (Inl e, p1, s1)
      | (Inr _, p1, s1) \<Rightarrow>
          (case az_client p1 of
             None \<Rightarrow> (Inl (Error ''Azure OpenAI client not initialized.''), p1, s1)
           | Some c \<Rightarrow>
              (Inr (tryCreate backend c
                      \<lparr> req_model = Azure_getModel p1 userModel,
                        messages = [(System, EXPLAIN_SYSTEM_PROMPT),
                                    (User, ''Explain the following command: '' @ command)] \<rparr>),
               p1, s1)))"

section \<open>The provider factory (llms/index.ts)\<close>

text \<open>
  A provider object is an instance of one of the three classes. The class
  \<^verbatim>\<open>LocalLLMProvider\<close> (llms/providers/localLlm.ts) is not among the sources: its objects
  carry no fields here, and its two operations are the parameters \<open>localGenerate\<close> and
  \<open>localExplain\<close> of the dispatch.
\<close>

datatype provider = OpenAIObj OpenAIProvider | AzureObj AzureOpenAIProvider | LocalObj

type_synonym provider_op =
  "string \<Rightarrow> string option \<Rightarrow> process \<Rightarrow> (fault + LLMResponse) \<times> process"

fun provider_generate ::
  "(string \<Rightarrow> bool) \<Rightarrow> backend \<Rightarrow> provider_op \<Rightarrow> string \<Rightarrow> string option \<Rightarrow> provider \<Rightarrow> process
     \<Rightarrow> (fault + LLMResponse) \<times> provider \<times> process" where
  "provider_generate isUrl backend localGenerate prompt userModel (OpenAIObj p) s =
     (case OpenAI_generate isUrl backend prompt userModel p s of
        (res, p1, s1) \<Rightarrow> (res, OpenAIObj p1, s1))"
| "provider_generate isUrl backend localGenerate prompt userModel (AzureObj p) s =
     (case Azure_generate isUrl backend prompt userModel p s of
        (res, p1, s1) \<Rightarrow> (res, AzureObj p1, s1))"
| "provider_generate isUrl backend localGenerate prompt userModel LocalObj s =
     (case localGenerate prompt userModel s of (res, s1) \<Rightarrow> (res, LocalObj, s1))"

fun provider_explain ::
  "(string \<Rightarrow> bool) \<Rightarrow> backend \<Rightarrow> provider_op \<Rightarrow> string \<Rightarrow> string option \<Rightarrow> provider \<Rightarrow> process
     \<Rightarrow> (fault + LLMResponse) \<times> provider \<times> process" where
  "provider_explain isUrl backend localExplain command userModel (OpenAIObj p) s =
     (case OpenAI_explain isUrl backend command userModel p s of
        (res, p1, s1) \<Rightarrow> (res, OpenAIObj p1, s1))"
| "provider_explain isUrl backend localExplain command userModel (AzureObj p) s =
     (case Azure_explain isUrl backend command userModel p s of
        (res, p1, s1) \<Rightarrow> (res, AzureObj p1, s1))"
| "provider_explain isUrl backend localExplain command userModel LocalObj s =
     (case localExplain command userModel s of (res, s1) \<Rightarrow> (res, LocalObj, s1))"

text \<open>
  Objects have identity: every construction takes the next number, and \<open>constructed\<close>
  counts the provider objects built so far in the process.
\<close>

record client_instance =
  inst_id :: nat
  inst_obj :: provider

record runtime =
  proc :: process
  constructed :: nat

text \<open>
  The \<^verbatim>\<open>switch\<close> over the selected identifier. Its \<^verbatim>\<open>default\<close> arm (fall back to
  \<^verbatim>\<open>OpenAIProvider\<close> with a warning) cannot be reached by a value of the closed type.
\<close>

fun construct :: "provider_id \<Rightarrow> provider" where
  "construct P_openai = OpenAIObj new_OpenAIProvider"
| "construct P_azure = AzureObj new_AzureOpenAIProvider"
| "construct P_local = LocalObj"

definition getLLMProvider ::
  "(string \<Rightarrow> bool) \<Rightarrow> provider_id option \<Rightarrow> runtime \<Rightarrow> client_instance \<times> runtime" where
  "getLLMProvider isUrl providerName w =
     (case loadConfig isUrl (proc w) of
        (r, s1) \<Rightarrow>
          (let selectedProvider =
                 (case providerName of
                    Some n \<Rightarrow> n
                  | None \<Rightarrow> defaultProvider (deref s1 r))
           in (\<lparr> inst_id = constructed w, inst_obj = construct selectedProvider \<rparr>,
               w\<lparr>proc := s1, constructed := Suc (constructed w)\<rparr>)))"

section \<open>Orchestrator (core/orchestrator.ts)\<close>

record Orchestrator =
  llmProvider :: "client_instance option"

definition new_Orchestrator :: Orchestrator where
  "new_Orchestrator = \<lparr> llmProvider = None \<rparr>"

definition getInitializedLLMProvider ::
  "(string \<Rightarrow> bool) \<Rightarrow> provider_id option \<Rightarrow> Orchestrator \<Rightarrow> runtime
     \<Rightarrow> client_instance option \<times> Orchestrator \<times> runtime" where
  "getInitializedLLMProvider isUrl providerName orc w =
     (if llmProvider orc = None \<or> providerName \<noteq> None then
        (case getLLMProvider isUrl providerName w of
           (i, w1) \<Rightarrow> (Some i, orc\<lparr>llmProvider := Some i\<rparr>, w1))
      else (llmProvider orc, orc, w))"

text \<open>\<^verbatim>\<open>error.message\<close> of a caught fault.\<close>

fun fault_message :: "fault \<Rightarrow> string" where
  "fault_message (Error m) = m"
| "fault_message ZodError = ''ZodError''"
| "fault_message SyntaxError = ''SyntaxError''"
| "fault_message (FsError m) = m"

text \<open>What \<^verbatim>\<open>handleExplainCommand\<close> reports on the console.\<close>

datatype explain_report =
  CouldNotInitialize
| LLMError string
| Explanation string
| NoExplanation
| ErrorExplaining string

text \<open>
  The \<^verbatim>\<open>try\<close> block of \<^verbatim>\<open>handleExplainCommand\<close> after the call of \<^verbatim>\<open>explain\<close>, and its
  \<^verbatim>\<open>catch\<close>: \<open>Inl\<close> is what \<^verbatim>\<open>explain\<close> threw, \<open>Inr\<close> what it returned.
\<close>

definition explainOutcome :: "fault + LLMResponse \<Rightarrow> explain_report" where
  "explainOutcome res =
     (case res of
        Inl e \<Rightarrow> ErrorExplaining (fault_message e)
      | Inr response \<Rightarrow>
          if truthy (error response) then LLMError (orElse (error response) [])
          else if truthy (content response) then Explanation (orElse (content response) [])
          else NoExplanation)"

record ExplainCommandArgs =
  commandToExplain :: string
  provider_arg :: "provider_id option"

definition handleExplainCommand ::
  "(string \<Rightarrow> bool) \<Rightarrow> backend \<Rightarrow> provider_op \<Rightarrow> ExplainCommandArgs \<Rightarrow> Orchestrator \<Rightarrow> runtime
     \<Rightarrow> explain_report \<times> Orchestrator \<times> runtime" where
  "handleExplainCommand isUrl backend localExplain args orc w =
     (case getInitializedLLMProvider isUrl (provider_arg args) orc w of
        (None, orc1, w1) \<Rightarrow> (CouldNotInitialize, orc1, w1)
      | (Some currentLLM, orc1, w1) \<Rightarrow>
          (case provider_explain isUrl backend localExplain (commandToExplain args) None
                  (inst_obj currentLLM) (proc w1) of
             (res, obj1, s1) \<Rightarrow>
               (explainOutcome res,
                orc1\<lparr>llmProvider := Some (currentLLM\<lparr>inst_obj := obj1\<rparr>)\<rparr>,
                w1\<lparr>proc := s1\<rparr>)))"

section \<open>InteractiveSession (interactiveSession.ts)\<close>

record InteractiveSession =
  orchestrator :: Orchestrator
  lastGeneratedCommand :: "string option"

text \<open>\<^verbatim>\<open>toLowerCase\<close> on the ASCII letters, which is all that the marker test reads.\<close>

definition toLowerChar :: "char \<Rightarrow> char" where
  "toLowerChar c =
     (case map_of (zip ''ABCDEFGHIJKLMNOPQRSTUVWXYZ'' ''abcdefghijklmnopqrstuvwxyz'') c of
        None \<Rightarrow> c
      | Some l \<Rightarrow> l)"

definition toLowerCase :: "string \<Rightarrow> string" where
  "toLowerCase t = map toLowerChar t"

definition startsWith :: "string \<Rightarrow> string \<Rightarrow> bool" where
  "startsWith t p = (take (length p) t = p)"

datatype generation_report =
  NotInitialized
| GenLLMError string
| Suggested string
| CouldNotGenerate string
| ErrorGenerating string

text \<open>
  The \<^verbatim>\<open>try\<close> block of \<^verbatim>\<open>handleGenerationPrompt\<close> after the call of \<^verbatim>\<open>generate\<close>, and its
  \<^verbatim>\<open>catch\<close>. After \<open>Suggested\<close> the session opens its menu of follow-up actions, which is
  interactive and outside this model.
\<close>

definition generationOutcome :: "fault + LLMResponse \<Rightarrow> generation_report" where
  "generationOutcome res =
     (case res of
        Inl e \<Rightarrow> ErrorGenerating (fault_message e)
      | Inr response \<Rightarrow>
          if truthy (error response) then GenLLMError (orElse (error response) [])
          else if truthy (content response)
                  \<and> \<not> startsWith (toLowerCase (orElse (content response) [])) ''error:''
          then Suggested (orElse (content response) [])
          else CouldNotGenerate (orElse (content response) ''No specific error message.''))"

fun lastCommandAfter :: "generation_report \<Rightarrow> string option \<Rightarrow> string option" where
  "lastCommandAfter NotInitialized l = l"
| "lastCommandAfter (Suggested c) l = Some c"
| "lastCommandAfter _ l = None"

definition handleGenerationPrompt ::
  "(string \<Rightarrow> bool) \<Rightarrow> backend \<Rightarrow> provider_op \<Rightarrow> string \<Rightarrow> InteractiveSession \<Rightarrow> runtime
     \<Rightarrow> generation_report \<times> InteractiveSession \<times> runtime" where
  "handleGenerationPrompt isUrl backend localGenerate prompt sess w =
     (case getInitializedLLMProvider isUrl None (orchestrator sess) w of
        (None, orc1, w1) \<Rightarrow> (NotInitialized, sess\<lparr>orchestrator := orc1\<rparr>, w1)
      | (Some llm, orc1, w1) \<Rightarrow>
          (case provider_generate isUrl backend localGenerate prompt None
                  (inst_obj llm) (proc w1) of
             (res, obj1, s1) \<Rightarrow>
               (generationOutcome res,
                sess\<lparr>orchestrator := orc1\<lparr>llmProvider := Some (llm\<lparr>inst_obj := obj1\<rparr>)\<rparr>,
                     lastGeneratedCommand :=
                       lastCommandAfter (generationOutcome res) (lastGeneratedCommand sess)\<rparr>,
                w1\<lparr>proc := s1\<rparr>)))"

section \<open>Notions used in the statements\<close>

text \<open>
  What the schema does to a configuration object that it accepts: every block loses
  \<^verbatim>\<open>apiVersion\<close>, the key the schema does not declare.
\<close>

fun stripBlock :: "LLMProviderConfig option \<Rightarrow> LLMProviderConfig option" where
  "stripBlock None = None"
| "stripBlock (Some c) = Some (c\<lparr>apiVersion := None\<rparr>)"

definition stripConfig :: "AppConfig \<Rightarrow> AppConfig" where
  "stripConfig cfg =
     \<lparr> defaultProvider = defaultProvider cfg,
       providers = \<lparr> openai = stripBlock (openai (providers cfg)),
                     azure = stripBlock (azure (providers cfg)),
                     local = stripBlock (local (providers cfg)) \<rparr> \<rparr>"

text \<open>A valid configuration object: every \<^verbatim>\<open>baseUrl\<close> that is present is a URL.\<close>

definition blockValid :: "(string \<Rightarrow> bool) \<Rightarrow> LLMProviderConfig option \<Rightarrow> bool" where
  "blockValid isUrl b =
     (case b of None \<Rightarrow> True
      | Some c \<Rightarrow> (case baseUrl c of None \<Rightarrow> True | Some u \<Rightarrow> isUrl u))"

definition configValid :: "(string \<Rightarrow> bool) \<Rightarrow> AppConfig \<Rightarrow> bool" where
  "configValid isUrl cfg =
     (blockValid isUrl (openai (providers cfg)) \<and> blockValid isUrl (azure (providers cfg))
      \<and> blockValid isUrl (local (providers cfg)))"

definition blockNoVersion :: "LLMProviderConfig option \<Rightarrow> bool" where
  "blockNoVersion b = (case b of None \<Rightarrow> True | Some c \<Rightarrow> apiVersion c = None)"

definition noApiVersion :: "AppConfig \<Rightarrow> bool" where
  "noApiVersion cfg =
     (blockNoVersion (openai (providers cfg)) \<and> blockNoVersion (azure (providers cfg))
      \<and> blockNoVersion (local (providers cfg)))"


text \<open>
  The operating system lets the service write the configuration file: it can create the
  directory when that is absent, and it accepts the write.
\<close>

definition can_write :: "fsys \<Rightarrow> bool" where
  "can_write f = ((case dir f of NoDir \<Rightarrow> mkdir_ok f | Dir _ \<Rightarrow> True) \<and> write_ok f)"

text \<open>
  The stored configuration cannot be used: the directory or the file is missing, the
  file cannot be read, its text is not JSON (the empty text is not), or the document
  fails the schema.
\<close>

definition unusable :: "(string \<Rightarrow> bool) \<Rightarrow> fsys \<Rightarrow> bool" where
  "unusable isUrl f =
     (case dir f of
        NoDir \<Rightarrow> True
      | Dir None \<Rightarrow> True
      | Dir (Some t) \<Rightarrow>
          \<not> read_ok f \<or>
          (case t of Malformed _ \<Rightarrow> True | Wellformed j \<Rightarrow> isl (AppConfigSchema isUrl j)))"

text \<open>
  The response contract in the words of the specification: the first completion's text,
  the empty string when it is absent, with the three token counters; or no content and
  the error message.
\<close>

definition spec_first_text :: "completion \<Rightarrow> string" where
  "spec_first_text c =
     (case choices c of
        Choice (Some (ChatMessage (Some t))) # _ \<Rightarrow> t
      | _ \<Rightarrow> [])"

definition spec_response :: "string + completion \<Rightarrow> LLMResponse" where
  "spec_response answer =
     (case answer of
        Inr c \<Rightarrow>
          \<lparr> content = Some (spec_first_text c),
            error = None,
            usage = Some \<lparr> promptTokens = map_option prompt_tokens (completion_usage c),
                           completionTokens = map_option completion_tokens (completion_usage c),
                           totalTokens = map_option total_tokens (completion_usage c) \<rparr> \<rparr>
      | Inl m \<Rightarrow> \<lparr> content = None, error = Some m, usage = None \<rparr>)"





text \<open>
  The model that a request falls through to when no override is used: the configured
  one when it is present and not empty, else the fallback of the variant.
\<close>

definition spec_fallthrough :: "string option \<Rightarrow> string \<Rightarrow> string" where
  "spec_fallthrough configured fallback =
     (case configured of
        None \<Rightarrow> fallback
      | Some c \<Rightarrow> if c = [] then fallback else c)"

definition allBlocks :: "AppConfig \<Rightarrow> bool" where
  "allBlocks c = (openai (providers c) \<noteq> None \<and> azure (providers c) \<noteq> None
                  \<and> local (providers c) \<noteq> None)"

subsection \<open>Sample inputs\<close>

text \<open>
  A stand-in for the library's URL check, a backend, some disks and some configuration
  objects, for the examples.
\<close>

definition sampleUrlCheck :: "string \<Rightarrow> bool" where
  "sampleUrlCheck u = (startsWith u ''http://'' \<or> startsWith u ''https://'')"

definition sampleBackend :: backend where
  "sampleBackend c req =
     (if req_model req = ''down'' then Inl ''Connection error.''
      else Inr \<lparr> choices = [Choice (Some (ChatMessage (Some ''ls -la'')))],
                 completion_usage =
                   Some \<lparr> prompt_tokens = 12, completion_tokens = 3, total_tokens = 15 \<rparr> \<rparr>)"

definition emptyDisk :: fsys where
  "emptyDisk = \<lparr> dir = NoDir, mkdir_ok = True, read_ok = True, write_ok = True \<rparr>"

definition readOnlyDisk :: fsys where
  "readOnlyDisk = \<lparr> dir = Dir None, mkdir_ok = True, read_ok = True, write_ok = False \<rparr>"

definition storedJson :: json where
  "storedJson =
     JObject [(''defaultProvider'', JString ''openai''),
              (''providers'', JObject [(''openai'', JObject [(''apiKey'', JString ''sk-1'')])])]"

definition storedDisk :: fsys where
  "storedDisk =
     \<lparr> dir = Dir (Some (Wellformed storedJson)), mkdir_ok = True, read_ok = True,
       write_ok = True \<rparr>"


definition invalidDisk :: fsys where
  "invalidDisk =
     \<lparr> dir = Dir (Some (Wellformed
               (JObject [(''defaultProvider'', JString ''gemini''), (''providers'', JObject [])]))),
       mkdir_ok = True, read_ok = True, write_ok = True \<rparr>"

definition azureNoModelDisk :: fsys where
  "azureNoModelDisk =
     \<lparr> dir = Dir (Some (Wellformed
               (JObject [(''defaultProvider'', JString ''azure''),
                         (''providers'',
                          JObject [(''azure'',
                                    JObject [(''apiKey'', JString ''az-key''),
                                             (''baseUrl'',
                                              JString ''https://example.openai.azure.com'')])])]))),
       mkdir_ok = True, read_ok = True, write_ok = True \<rparr>"

definition azureBlock :: LLMProviderConfig where
  "azureBlock =
     \<lparr> apiKey = Some ''az-key'', baseUrl = Some ''https://example.openai.azure.com'',
       model = Some ''gpt-4o-deploy'', apiVersion = None \<rparr>"

definition azureConfig :: AppConfig where
  "azureConfig =
     \<lparr> defaultProvider = P_azure,
       providers = \<lparr> openai = Some (emptyBlock\<lparr>apiKey := Some ''sk-1''\<rparr>),
                     azure = Some azureBlock,
                     local = None \<rparr> \<rparr>"

definition azureConfigVersioned :: AppConfig where
  "azureConfigVersioned =
     azureConfig\<lparr>providers :=
       (providers azureConfig)\<lparr>azure := Some (azureBlock\<lparr>apiVersion := Some ''2024-06-01''\<rparr>)\<rparr>\<rparr>"




definition azureDownDisk :: fsys where
  "azureDownDisk =
     \<lparr> dir = Dir (Some (Wellformed
               (JObject [(''defaultProvider'', JString ''azure''),
                         (''providers'',
                          JObject [(''azure'',
                                    JObject [(''apiKey'', JString ''az-key''),
                                             (''baseUrl'',
                                              JString ''https://example.openai.azure.com''),
                                             (''model'', JString ''down'')])])]))),
       mkdir_ok = True, read_ok = True, write_ok = True \<rparr>"

definition unreadableDisk :: fsys where
  "unreadableDisk = storedDisk\<lparr>read_ok := False\<rparr>"

definition initializedOpenAI :: OpenAIProvider where
  "initializedOpenAI =
     \<lparr> oa_openai = Some (OpenAI ''sk-1''),
       oa_activeConfig = Some (emptyBlock\<lparr>apiKey := Some ''sk-1'', model := Some ''gpt-4''\<rparr>),
       oa_appConfig = None \<rparr>"

definition initializedAzure :: AzureOpenAIProvider where
  "initializedAzure =
     \<lparr> az_client = Some (AzureOpenAI \<lparr> opt_apiKey = ''az-key'', opt_deployment = ''gpt-4o-deploy'',
                                       opt_apiVersion = ''2025-03-01-preview'',
                                       opt_endpoint = ''https://example.openai.azure.com'' \<rparr>),
       az_appConfig = None,
       az_activeConfig = Some azureBlock,
       az_deploymentName = Some ''gpt-4o-deploy'' \<rparr>"

definition sampleLocal :: provider_op where
  "sampleLocal t userModel s = (Inr \<lparr> content = Some [], error = None, usage = None \<rparr>, s)"

definition cachedOrchestrator :: Orchestrator where
  "cachedOrchestrator = \<lparr> llmProvider = Some \<lparr> inst_id = 0, inst_obj = LocalObj \<rparr> \<rparr>"

definition freshRuntime :: runtime where
  "freshRuntime = \<lparr> proc = startup emptyDisk, constructed = 0 \<rparr>"

definition cachedRuntime :: runtime where
  "cachedRuntime = \<lparr> proc = startup emptyDisk, constructed = 1 \<rparr>"

section \<open>The schema on configuration objects\<close>

lemma strProp_lookup [simp]:
  "map_of (strProp k v) k' = (if k = k' then map_option JString v else None)"
  by (cases v) (auto simp: strProp_def)

lemma blockValid_None [simp]: "blockValid isUrl None"
  by (simp add: blockValid_def)

lemma block_schema:
  "LLMProviderConfigSchema isUrl (blockJson c) =
     (if blockValid isUrl (Some c) then Inr (c\<lparr>apiVersion := None\<rparr>) else Inl ZodError)"
  by (cases c) (auto simp: LLMProviderConfigSchema_def blockJson_def map_add_def
      optionalString_def optionalUrl_def blockValid_def split: option.splits)

lemma optionalBlock_json:
  "optionalBlock isUrl (map_option blockJson b) =
     (if blockValid isUrl b then Inr (stripBlock b) else Inl ZodError)"
  by (cases b) (auto simp: optionalBlock_def block_schema blockValid_def)

lemma defaultProviderSchema_name [simp]:
  "defaultProviderSchema (Some (JString (provider_name d))) = Inr d"
  by (cases d) (auto simp: defaultProviderSchema_def)

lemma providers_lookup:
  "map_of (blockProp ''openai'' a @ blockProp ''azure'' b @ blockProp ''local'' c) ''openai''
     = map_option blockJson a"
  "map_of (blockProp ''openai'' a @ blockProp ''azure'' b @ blockProp ''local'' c) ''azure''
     = map_option blockJson b"
  "map_of (blockProp ''openai'' a @ blockProp ''azure'' b @ blockProp ''local'' c) ''local''
     = map_option blockJson c"
  by (cases a; cases b; cases c; simp add: blockProp_def)+

lemma providersSchema_json:
  "providersSchema isUrl
     (Some (JObject (blockProp ''openai'' a @ blockProp ''azure'' b @ blockProp ''local'' c))) =
   (if blockValid isUrl a \<and> blockValid isUrl b \<and> blockValid isUrl c
    then Inr \<lparr> openai = stripBlock a, azure = stripBlock b, local = stripBlock c \<rparr>
    else Inl ZodError)"
  by (simp add: providersSchema_def providers_lookup optionalBlock_json del: map_of_append)

text \<open>
  Validating an in-memory object: a valid one comes back without \<^verbatim>\<open>apiVersion\<close>, any other
  is rejected.
\<close>

lemma schema_configJson:
  "AppConfigSchema isUrl (configJson cfg) =
     (if configValid isUrl cfg then Inr (stripConfig cfg) else Inl ZodError)"
  by (simp add: AppConfigSchema_def configJson_def providersSchema_json
      configValid_def stripConfig_def)





lemma stripBlock_id: "blockNoVersion b \<Longrightarrow> stripBlock b = b"
  by (cases b) (auto simp: blockNoVersion_def)

lemma stripConfig_id: "noApiVersion cfg \<Longrightarrow> stripConfig cfg = cfg"
  by (simp add: noApiVersion_def stripConfig_def stripBlock_id)

lemma default_valid: "configValid isUrl defaultConfig_init = isUrl ''http://localhost:1234/v1''"
  by (simp add: configValid_def blockValid_def defaultConfig_init_def emptyBlock_def)

lemma default_noVersion [simp]: "noApiVersion defaultConfig_init"
  by (simp add: noApiVersion_def blockNoVersion_def defaultConfig_init_def emptyBlock_def)

lemma allBlocks_default [simp]: "allBlocks defaultConfig_init"
  by (simp add: allBlocks_def defaultConfig_init_def)

lemma startup_simps [simp]:
  "defaultConfig (startup f) = defaultConfig_init" "fs (startup f) = f"
  by (simp_all add: startup_def)




section \<open>Saving and loading\<close>

lemma saveConfig_written:
  assumes "configValid isUrl cfg" and "can_write (fs s)"
  shows "saveConfig isUrl cfg s =
           s\<lparr>fs := (fs s)\<lparr>dir := Dir (Some (JSON_stringify (configJson (stripConfig cfg))))\<rparr>\<rparr>"
  using assms
  by (auto simp: saveConfig_def schema_configJson can_write_def ensureConfigDirExists_def
      mkdir_def writeFile_def split: config_dir.splits)


lemma saveConfig_defaultConfig [simp]:
  "defaultConfig (saveConfig isUrl cfg s) = defaultConfig s"
  by (auto simp: saveConfig_def split: sum.splits)

lemma saveConfig_flags [simp]:
  "mkdir_ok (fs (saveConfig isUrl cfg s)) = mkdir_ok (fs s)"
  "read_ok (fs (saveConfig isUrl cfg s)) = read_ok (fs s)"
  "write_ok (fs (saveConfig isUrl cfg s)) = write_ok (fs s)"
  by (auto simp: saveConfig_def ensureConfigDirExists_def mkdir_def writeFile_def
      split: sum.splits config_dir.splits if_splits)


lemma loadConfig_flags [simp]:
  "mkdir_ok (fs (snd (loadConfig isUrl s))) = mkdir_ok (fs s)"
  "read_ok (fs (snd (loadConfig isUrl s))) = read_ok (fs s)"
  "write_ok (fs (snd (loadConfig isUrl s))) = write_ok (fs s)"
  by (auto simp: loadConfig_def ensureConfigDirExists_def mkdir_def Let_def
      split: sum.splits config_dir.splits if_splits)



text \<open>The failure paths of \<^verbatim>\<open>loadConfig\<close>.\<close>

lemma loadConfig_unusable:
  assumes "unusable isUrl (fs s)"
  shows "fst (loadConfig isUrl s) = DefaultConfigObject"
    and "defaultConfig (snd (loadConfig isUrl s)) = defaultConfig s"
  using assms
  by (auto simp: loadConfig_def unusable_def ensureConfigDirExists_def mkdir_def readFile_def
      JSON_parse_def Let_def split: config_dir.splits option.splits file_text.splits sum.splits)

lemma loadConfig_unusable_persist:
  assumes "unusable isUrl (fs s)" and "configValid isUrl (defaultConfig s)" and "can_write (fs s)"
  shows "dir (fs (snd (loadConfig isUrl s))) =
           Dir (Some (JSON_stringify (configJson (stripConfig (defaultConfig s)))))"
  using assms
  by (auto simp: loadConfig_def unusable_def ensureConfigDirExists_def mkdir_def readFile_def
      JSON_parse_def Let_def saveConfig_written can_write_def
      split: config_dir.splits option.splits file_text.splits sum.splits)

text \<open>The success path of \<^verbatim>\<open>loadConfig\<close>.\<close>

lemma loadConfig_usable:
  assumes "dir (fs s) = Dir (Some (Wellformed j))" and "read_ok (fs s)"
    and "AppConfigSchema isUrl j = Inr v"
  shows "loadConfig isUrl s = (FreshObject (mergeOverDefault (defaultConfig s) v), s)"
  using assms
  by (simp add: loadConfig_def ensureConfigDirExists_def readFile_def JSON_parse_def)


text \<open>Reading back what \<^verbatim>\<open>saveConfig\<close> wrote.\<close>

lemma load_after_write:
  assumes "dir (fs s) = Dir (Some (JSON_stringify (configJson c)))"
    and "configValid isUrl c" and "noApiVersion c"
  shows "loadedConfig isUrl s =
           (if read_ok (fs s) then mergeOverDefault (defaultConfig s) c else defaultConfig s)"
proof (cases "read_ok (fs s)")
  case True
  have "AppConfigSchema isUrl (configJson c) = Inr c"
    using assms by (simp add: schema_configJson stripConfig_id)
  then show ?thesis
    using assms True loadConfig_usable[of s "configJson c" isUrl c]
    by (simp add: JSON_stringify_def loadedConfig_def deref_def)
next
  case False
  then have u: "unusable isUrl (fs s)"
    using assms by (simp add: unusable_def)
  show ?thesis
    using loadConfig_unusable[OF u] False
    by (cases "loadConfig isUrl s") (simp add: loadedConfig_def deref_def)
qed


lemma blockValid_orEmpty [simp]: "blockValid isUrl (Some (orEmpty b)) = blockValid isUrl b"
  by (cases b) (simp_all add: orEmpty_def blockValid_def emptyBlock_def)


lemma blockNoVersion_orEmpty [simp]: "blockNoVersion (Some (orEmpty b)) = blockNoVersion b"
  by (cases b) (simp_all add: orEmpty_def blockNoVersion_def emptyBlock_def)



lemma spread_absorb: "spread a (spread (spread a b) u) = spread (spread a b) u"
  by (simp add: spread_def over_def split: option.splits)




lemma merge_fieldwise:
  assumes "noApiVersion d" and "noApiVersion c"
  shows "getBlock pid (providers (mergeOverDefault d c)) =
           Some \<lparr> apiKey = (case Option.bind (getBlock pid (providers c)) apiKey of
                              None \<Rightarrow> Option.bind (getBlock pid (providers d)) apiKey
                            | Some v \<Rightarrow> Some v),
                  baseUrl = (case Option.bind (getBlock pid (providers c)) baseUrl of
                              None \<Rightarrow> Option.bind (getBlock pid (providers d)) baseUrl
                            | Some v \<Rightarrow> Some v),
                  model = (case Option.bind (getBlock pid (providers c)) model of
                              None \<Rightarrow> Option.bind (getBlock pid (providers d)) model
                            | Some v \<Rightarrow> Some v),
                  apiVersion = None \<rparr>"
  using assms
  by (cases pid)
     (auto simp: mergeOverDefault_def noApiVersion_def blockNoVersion_def spread_def over_def
        orEmpty_def emptyBlock_def split: option.splits)



section \<open>Recovery of an unusable configuration\<close>


text \<open>
  Claim C3, as the code has it. In a process whose \<^verbatim>\<open>defaultConfig\<close> object still has its
  initial value, on any file system where the stored configuration is missing, empty,
  not JSON, schema-invalid or unreadable, \<^verbatim>\<open>loadConfig\<close> does not fail: it returns the
  \<^verbatim>\<open>defaultConfig\<close> object, whose value is the default configuration. When the library
  accepts the default local URL and the operating system lets the service write, the
  file holds the default configuration afterwards. A write that fails is only logged by
  \<^verbatim>\<open>saveConfig\<close>.
\<close>

theorem loadConfig_recovers:
  assumes "defaultConfig s = defaultConfig_init" and "unusable isUrl (fs s)"
  shows "fst (loadConfig isUrl s) = DefaultConfigObject
     \<and> loadedConfig isUrl s = defaultConfig_init
     \<and> (isUrl ''http://localhost:1234/v1'' \<and> can_write (fs s) \<longrightarrow>
          dir (fs (snd (loadConfig isUrl s))) =
            Dir (Some (JSON_stringify (configJson defaultConfig_init))))"
proof -
  have 1: "fst (loadConfig isUrl s) = DefaultConfigObject"
    using loadConfig_unusable(1)[OF assms(2)] .
  have 2: "defaultConfig (snd (loadConfig isUrl s)) = defaultConfig_init"
    using loadConfig_unusable(2)[OF assms(2)] assms(1) by simp
  have 3: "loadedConfig isUrl s = defaultConfig_init"
    using 1 2 by (cases "loadConfig isUrl s") (simp add: loadedConfig_def deref_def)
  have 4: "dir (fs (snd (loadConfig isUrl s))) =
            Dir (Some (JSON_stringify (configJson defaultConfig_init)))"
    if "isUrl ''http://localhost:1234/v1''" and "can_write (fs s)"
    using loadConfig_unusable_persist[OF assms(2)] that assms(1)
    by (simp add: default_valid stripConfig_id)
  show ?thesis using 1 3 4 by blast
qed

text \<open>A stored document that names an unknown default provider is replaced by the default.\<close>

theorem loadConfig_recovers_witness:
  "unusable sampleUrlCheck invalidDisk
   \<and> loadedConfig sampleUrlCheck (startup invalidDisk) = defaultConfig_init
   \<and> dir (fs (snd (loadConfig sampleUrlCheck (startup invalidDisk)))) =
       Dir (Some (JSON_stringify (configJson defaultConfig_init)))"
proof -
  have d: "defaultConfig (startup invalidDisk) = defaultConfig_init" by simp
  have u: "unusable sampleUrlCheck (fs (startup invalidDisk))" by code_simp
  have c: "sampleUrlCheck ''http://localhost:1234/v1'' \<and> can_write (fs (startup invalidDisk))"
    by code_simp
  show ?thesis using loadConfig_recovers[OF d u] u c by simp
qed

text \<open>
  Two runs where the claim fails. The configuration file is missing and the directory
  does not accept the write: \<^verbatim>\<open>loadConfig\<close> returns the default configuration, and the
  file is still missing afterwards. And the stored file cannot be read when
  \<^verbatim>\<open>setDefaultProvider\<close> is called: \<^verbatim>\<open>setDefaultProvider\<close> assigns into the
  \<^verbatim>\<open>defaultConfig\<close> object that its \<^verbatim>\<open>loadConfig\<close> returned, and the next \<^verbatim>\<open>loadConfig\<close>
  returns and persists that changed object.
\<close>

theorem loadConfig_counterexample:
  "unusable sampleUrlCheck readOnlyDisk
   \<and> loadedConfig sampleUrlCheck (startup readOnlyDisk) = defaultConfig_init
   \<and> dir (fs (snd (loadConfig sampleUrlCheck (startup readOnlyDisk)))) = Dir None
   \<and> unusable sampleUrlCheck
        (fs (setDefaultProvider sampleUrlCheck P_azure (startup unreadableDisk)))
   \<and> loadedConfig sampleUrlCheck
        (setDefaultProvider sampleUrlCheck P_azure (startup unreadableDisk))
       = defaultConfig_init\<lparr>defaultProvider := P_azure\<rparr>
   \<and> dir (fs (snd (loadConfig sampleUrlCheck
        (setDefaultProvider sampleUrlCheck P_azure (startup unreadableDisk)))))
       = Dir (Some (JSON_stringify
                      (configJson (defaultConfig_init\<lparr>defaultProvider := P_azure\<rparr>))))"
  by code_simp

section \<open>Saving, then loading\<close>

text \<open>
  Claim C4, as the code has it. For every valid configuration object without an
  \<^verbatim>\<open>apiVersion\<close>, in a process whose \<^verbatim>\<open>defaultConfig\<close> object still has its initial value
  and on a file system that accepts the write and the read, \<^verbatim>\<open>saveConfig\<close> followed by
  \<^verbatim>\<open>loadConfig\<close> returns the object merged over the default configuration: the default
  provider is the saved one, and every field of every provider block is the saved field
  when the object has it and the default's field otherwise.
\<close>

theorem save_load_roundtrip:
  assumes "defaultConfig s = defaultConfig_init"
    and "configValid isUrl cfg" and "noApiVersion cfg"
    and "can_write (fs s)" and "read_ok (fs s)"
  shows "loadedConfig isUrl (saveConfig isUrl cfg s) =
           mergeOverDefault defaultConfig_init cfg
     \<and> defaultProvider (loadedConfig isUrl (saveConfig isUrl cfg s)) = defaultProvider cfg
     \<and> getBlock pid (providers (loadedConfig isUrl (saveConfig isUrl cfg s))) =
         Some \<lparr> apiKey = (case Option.bind (getBlock pid (providers cfg)) apiKey of
                            None \<Rightarrow> Option.bind (getBlock pid (providers defaultConfig_init)) apiKey
                          | Some v \<Rightarrow> Some v),
                baseUrl = (case Option.bind (getBlock pid (providers cfg)) baseUrl of
                            None \<Rightarrow> Option.bind (getBlock pid (providers defaultConfig_init)) baseUrl
                          | Some v \<Rightarrow> Some v),
                model = (case Option.bind (getBlock pid (providers cfg)) model of
                            None \<Rightarrow> Option.bind (getBlock pid (providers defaultConfig_init)) model
                          | Some v \<Rightarrow> Some v),
                apiVersion = None \<rparr>"
proof -
  let ?s = "saveConfig isUrl cfg s"
  have w: "?s = s\<lparr>fs := (fs s)\<lparr>dir := Dir (Some (JSON_stringify (configJson cfg)))\<rparr>\<rparr>"
    using saveConfig_written[of isUrl cfg s] assms by (simp add: stripConfig_id)
  have "dir (fs ?s) = Dir (Some (JSON_stringify (configJson cfg)))" and "read_ok (fs ?s)"
    and "defaultConfig ?s = defaultConfig_init"
    using assms by (simp_all add: w)
  then have eq: "loadedConfig isUrl ?s = mergeOverDefault defaultConfig_init cfg"
    using load_after_write[of ?s cfg isUrl] assms by simp
  have dp: "defaultProvider (mergeOverDefault defaultConfig_init cfg) = defaultProvider cfg"
    by (simp add: mergeOverDefault_def)
  show ?thesis
    unfolding eq using dp merge_fieldwise[OF default_noVersion assms(3), of pid] by simp
qed

text \<open>
  An object with an \<^verbatim>\<open>openai\<close> key but no model, a full \<^verbatim>\<open>azure\<close> block and no \<^verbatim>\<open>local\<close>
  block, saved on an empty disk: the model of \<^verbatim>\<open>openai\<close> and the whole \<^verbatim>\<open>local\<close> block come
  from the default.
\<close>

theorem save_load_roundtrip_witness:
  "loadedConfig sampleUrlCheck (saveConfig sampleUrlCheck azureConfig (startup emptyDisk)) =
     \<lparr> defaultProvider = P_azure,
       providers =
         \<lparr> openai = Some (emptyBlock\<lparr>apiKey := Some ''sk-1'', model := Some ''gpt-3.5-turbo''\<rparr>),
           azure = Some azureBlock,
           local = Some (emptyBlock\<lparr>baseUrl := Some ''http://localhost:1234/v1'',
                                     model := Some ''local-model''\<rparr>) \<rparr> \<rparr>"
proof -
  have h: "defaultConfig (startup emptyDisk) = defaultConfig_init"
    "configValid sampleUrlCheck azureConfig" "noApiVersion azureConfig"
    "can_write (fs (startup emptyDisk))" "read_ok (fs (startup emptyDisk))"
    by code_simp+
  have "mergeOverDefault defaultConfig_init azureConfig =
     \<lparr> defaultProvider = P_azure,
       providers =
         \<lparr> openai = Some (emptyBlock\<lparr>apiKey := Some ''sk-1'', model := Some ''gpt-3.5-turbo''\<rparr>),
           azure = Some azureBlock,
           local = Some (emptyBlock\<lparr>baseUrl := Some ''http://localhost:1234/v1'',
                                     model := Some ''local-model''\<rparr>) \<rparr> \<rparr>"
    by code_simp
  then show ?thesis using save_load_roundtrip[OF h] by simp
qed

text \<open>
  Three runs where the round trip is not the merge over the default configuration. On a
  disk that does not accept the write nothing is stored. An \<^verbatim>\<open>apiVersion\<close> is dropped by
  the schema before the object is stored. And after \<^verbatim>\<open>updateProviderConfig\<close> has run on a
  first start (no stored file), the key it was given sits in the \<^verbatim>\<open>defaultConfig\<close> object,
  so that saving the default configuration and loading it again shows that key.
\<close>

theorem save_load_roundtrip_counterexample:
  "configValid sampleUrlCheck azureConfig
   \<and> loadedConfig sampleUrlCheck (saveConfig sampleUrlCheck azureConfig (startup readOnlyDisk))
       \<noteq> mergeOverDefault defaultConfig_init azureConfig
   \<and> configValid sampleUrlCheck azureConfigVersioned
   \<and> loadedConfig sampleUrlCheck
         (saveConfig sampleUrlCheck azureConfigVersioned (startup emptyDisk))
       \<noteq> mergeOverDefault defaultConfig_init azureConfigVersioned
   \<and> Option.bind (openai (providers (loadedConfig sampleUrlCheck
         (saveConfig sampleUrlCheck defaultConfig_init
            (updateProviderConfig sampleUrlCheck P_openai
               (emptyUpdate\<lparr>upd_apiKey := Given ''sk-old''\<rparr>) (startup emptyDisk)))))) apiKey
       = Some ''sk-old''
   \<and> Option.bind (openai (providers
         (mergeOverDefault defaultConfig_init defaultConfig_init))) apiKey = None"
  by code_simp

section \<open>Updating one provider block\<close>













section \<open>The undeclared key\<close>





section \<open>Provider clients\<close>

text \<open>
  Claim C1, as the code has it. \<^verbatim>\<open>initializeClient\<close> is called before the \<^verbatim>\<open>try\<close> block
  of each operation. For a client of the OpenAI or the Azure class that is not yet
  initialized, when the loaded configuration lacks a required field of its block (the
  key for OpenAI; the key, the endpoint or the deployment name for Azure; an empty string
  counts as lacking), \<^verbatim>\<open>generate\<close> and \<^verbatim>\<open>explain\<close> return no response: they throw the
  configuration error that tells the user to run \<^verbatim>\<open>configure\<close>, whatever the backend is.
  The handlers of the orchestrator and of the interactive session catch that error and
  report it.
\<close>

theorem missing_field_raises:
  "((oa_openai p = None \<or> oa_activeConfig p = None)
      \<and> \<not> truthy (Option.bind (openai (providers (loadedConfig isUrl s))) apiKey) \<longrightarrow>
        fst (OpenAI_generate isUrl backend x m p s) = Inl (Error OPENAI_NOT_CONFIGURED)
        \<and> fst (OpenAI_explain isUrl backend x m p s) = Inl (Error OPENAI_NOT_CONFIGURED))
   \<and> ((az_client q = None \<or> az_activeConfig q = None)
      \<and> (\<not> truthy (Option.bind (azure (providers (loadedConfig isUrl s))) apiKey)
         \<or> \<not> truthy (Option.bind (azure (providers (loadedConfig isUrl s))) baseUrl)
         \<or> \<not> truthy (Option.bind (azure (providers (loadedConfig isUrl s))) model)) \<longrightarrow>
        fst (Azure_generate isUrl backend x m q s) = Inl (Error AZURE_NOT_CONFIGURED)
        \<and> fst (Azure_explain isUrl backend x m q s) = Inl (Error AZURE_NOT_CONFIGURED))
   \<and> explainOutcome (Inl (Error msg)) = ErrorExplaining msg
   \<and> generationOutcome (Inl (Error msg)) = ErrorGenerating msg"
  by (auto simp: OpenAI_generate_def OpenAI_explain_def Azure_generate_def Azure_explain_def
      OpenAI_initializeClient_def Azure_initializeClient_def loadedConfig_def Let_def
      explainOutcome_def generationOutcome_def
      split: prod.splits option.splits)

text \<open>
  The stored \<^verbatim>\<open>azure\<close> block has a key and an endpoint but no deployment name, and there is
  no \<^verbatim>\<open>openai\<close> block.
\<close>

theorem missing_field_raises_witness:
  "fst (Azure_generate sampleUrlCheck sampleBackend ''list files'' None new_AzureOpenAIProvider
          (startup azureNoModelDisk)) = Inl (Error AZURE_NOT_CONFIGURED)
   \<and> fst (Azure_explain sampleUrlCheck sampleBackend ''ls -la'' None new_AzureOpenAIProvider
          (startup azureNoModelDisk)) = Inl (Error AZURE_NOT_CONFIGURED)
   \<and> fst (OpenAI_explain sampleUrlCheck sampleBackend ''ls -la'' None new_OpenAIProvider
          (startup azureNoModelDisk)) = Inl (Error OPENAI_NOT_CONFIGURED)
   \<and> explainOutcome (Inl (Error AZURE_NOT_CONFIGURED)) = ErrorExplaining AZURE_NOT_CONFIGURED"
proof -
  have a: "az_client new_AzureOpenAIProvider = None"
    by (simp add: new_AzureOpenAIProvider_def)
  have b: "\<not> truthy (Option.bind (azure (providers (loadedConfig sampleUrlCheck
              (startup azureNoModelDisk)))) model)"
    by code_simp
  have c: "oa_openai new_OpenAIProvider = None"
    by (simp add: new_OpenAIProvider_def)
  have d: "\<not> truthy (Option.bind (openai (providers (loadedConfig sampleUrlCheck
              (startup azureNoModelDisk)))) apiKey)"
    by code_simp
  show ?thesis
    using missing_field_raises[where p = new_OpenAIProvider and isUrl = sampleUrlCheck
        and s = "startup azureNoModelDisk" and backend = sampleBackend and m = None
        and q = new_AzureOpenAIProvider and msg = AZURE_NOT_CONFIGURED] a b c d
    by blast
qed

text \<open>
  A first run, with no configuration directory: \<^verbatim>\<open>generate\<close> of a new OpenAI client does
  not return a response with an error, it throws.
\<close>

theorem missing_field_counterexample:
  "fst (OpenAI_generate sampleUrlCheck sampleBackend ''list files'' None new_OpenAIProvider
          (startup emptyDisk)) = Inl (Error OPENAI_NOT_CONFIGURED)"
  by code_simp

text \<open>
  The same first run through the two handlers: the thrown error is caught and reported,
  and the session forgets its last command.
\<close>

lemma first_run_explain_report:
  "fst (handleExplainCommand sampleUrlCheck sampleBackend sampleLocal
          \<lparr> commandToExplain = ''ls -la'', provider_arg = None \<rparr> new_Orchestrator freshRuntime)
     = ErrorExplaining OPENAI_NOT_CONFIGURED"
  by code_simp

lemma first_run_generation_report:
  "(case handleGenerationPrompt sampleUrlCheck sampleBackend sampleLocal ''list files''
           \<lparr> orchestrator = new_Orchestrator, lastGeneratedCommand = Some ''ls'' \<rparr> freshRuntime of
      (report, sess, w) \<Rightarrow> (report, lastGeneratedCommand sess))
     = (ErrorGenerating OPENAI_NOT_CONFIGURED, None)"
  by code_simp

lemma responseContent_spec: "responseContent c = spec_first_text c"
  by (auto simp: responseContent_def spec_first_text_def orElse_def
      split: list.splits option.splits choice.splits chat_message.splits)

lemma tryCreate_spec: "tryCreate backend c req = spec_response (backend c req)"
  by (auto simp: tryCreate_def spec_response_def successResponse_def failureResponse_def
      responseContent_spec split: sum.splits)

text \<open>
  Claim C5. For an initialized client of the OpenAI or the Azure class, each of
  \<^verbatim>\<open>generate\<close> and \<^verbatim>\<open>explain\<close> sends one request (the resolved model, the system instruction
  of the operation and the user message) and returns, without throwing and without
  touching the client or the configuration, the response that the specification
  describes: on a completion, the first completion's text (the empty string when absent)
  as content, the three token counters as usage and no error; on a failure of the
  backend, no content and the message as error.
\<close>

theorem initialized_operations:
  "(oa_openai p = Some c \<and> oa_activeConfig p \<noteq> None \<longrightarrow>
      OpenAI_generate isUrl backend x m p s =
        (Inr (spec_response (backend c
           \<lparr> req_model = OpenAI_getModel p m,
             messages = [(System, OPENAI_GENERATE_SYSTEM_PROMPT), (User, x)] \<rparr>)), p, s)
      \<and> OpenAI_explain isUrl backend x m p s =
        (Inr (spec_response (backend c
           \<lparr> req_model = OpenAI_getModel p m,
             messages = [(System, EXPLAIN_SYSTEM_PROMPT),
                         (User, ''Explain the following command: '' @ x)] \<rparr>)), p, s))
   \<and> (az_client q = Some d \<and> az_activeConfig q \<noteq> None \<longrightarrow>
      Azure_generate isUrl backend x m q s =
        (Inr (spec_response (backend d
           \<lparr> req_model = Azure_getModel q m,
             messages = [(System, AZURE_GENERATE_SYSTEM_PROMPT), (User, x)] \<rparr>)), q, s)
      \<and> Azure_explain isUrl backend x m q s =
        (Inr (spec_response (backend d
           \<lparr> req_model = Azure_getModel q m,
             messages = [(System, EXPLAIN_SYSTEM_PROMPT),
                         (User, ''Explain the following command: '' @ x)] \<rparr>)), q, s))"
  by (auto simp: OpenAI_generate_def OpenAI_explain_def Azure_generate_def Azure_explain_def
      OpenAI_initializeClient_def Azure_initializeClient_def tryCreate_spec)

text \<open>
  A backend that completes with \<^verbatim>\<open>ls -la\<close>, and fails for the model \<^verbatim>\<open>down\<close>.
\<close>

theorem initialized_operations_witness:
  "fst (OpenAI_generate sampleUrlCheck sampleBackend ''list files'' None initializedOpenAI
          (startup emptyDisk)) =
     Inr \<lparr> content = Some ''ls -la'', error = None,
           usage = Some \<lparr> promptTokens = Some 12, completionTokens = Some 3,
                          totalTokens = Some 15 \<rparr> \<rparr>
   \<and> fst (Azure_explain sampleUrlCheck sampleBackend ''ls -la'' (Some ''down'') initializedAzure
          (startup emptyDisk)) =
     Inr \<lparr> content = None, error = Some ''Connection error.'', usage = None \<rparr>"
proof -
  have i: "oa_openai initializedOpenAI = Some (OpenAI ''sk-1'')
             \<and> oa_activeConfig initializedOpenAI \<noteq> None"
    by (simp add: initializedOpenAI_def)
  obtain d where j: "az_client initializedAzure = Some d \<and> az_activeConfig initializedAzure \<noteq> None"
    by (simp add: initializedAzure_def)
  have g: "OpenAI_getModel initializedOpenAI None = ''gpt-4''"
    "Azure_getModel initializedAzure (Some ''down'') = ''down''"
    by code_simp+
  show ?thesis
    using initialized_operations[where p = initializedOpenAI and c = "OpenAI ''sk-1''"
        and isUrl = sampleUrlCheck and backend = sampleBackend and x = "''list files''"
        and m = None and s = "startup emptyDisk"]
      initialized_operations[where q = initializedAzure and d = d
        and isUrl = sampleUrlCheck and backend = sampleBackend and x = "''ls -la''"
        and m = "Some ''down''" and s = "startup emptyDisk"] i j
    by (simp add: g sampleBackend_def spec_response_def spec_first_text_def)
qed

section \<open>Model resolution\<close>

text \<open>
  Claim C7, as the code has it. The model of a request is the per-call override when
  that is supplied and not empty, else the configured model (the deployment name for
  Azure) when that is present and not empty, else \<^verbatim>\<open>gpt-3.5-turbo\<close> for the OpenAI client
  and \<^verbatim>\<open>gpt-4o\<close> for the Azure client.
\<close>

theorem getModel_precedence:
  "OpenAI_getModel p userModel =
     (case userModel of
        Some u \<Rightarrow>
          if u \<noteq> [] then u
          else (case Option.bind (oa_activeConfig p) model of
                  Some c \<Rightarrow> if c \<noteq> [] then c else ''gpt-3.5-turbo''
                | None \<Rightarrow> ''gpt-3.5-turbo'')
      | None \<Rightarrow>
          (case Option.bind (oa_activeConfig p) model of
             Some c \<Rightarrow> if c \<noteq> [] then c else ''gpt-3.5-turbo''
           | None \<Rightarrow> ''gpt-3.5-turbo''))
   \<and> Azure_getModel q userModel =
     (case userModel of
        Some u \<Rightarrow>
          if u \<noteq> [] then u
          else (case az_deploymentName q of
                  Some c \<Rightarrow> if c \<noteq> [] then c else ''gpt-4o''
                | None \<Rightarrow> ''gpt-4o'')
      | None \<Rightarrow>
          (case az_deploymentName q of
             Some c \<Rightarrow> if c \<noteq> [] then c else ''gpt-4o''
           | None \<Rightarrow> ''gpt-4o''))"
  by (auto simp: OpenAI_getModel_def Azure_getModel_def orElse_def split: option.splits)

theorem getModel_precedence_witness:
  "OpenAI_getModel initializedOpenAI (Some ''gpt-4o-mini'') = ''gpt-4o-mini''
   \<and> OpenAI_getModel initializedOpenAI None = ''gpt-4''
   \<and> OpenAI_getModel new_OpenAIProvider None = ''gpt-3.5-turbo''
   \<and> Azure_getModel initializedAzure None = ''gpt-4o-deploy''
   \<and> Azure_getModel new_AzureOpenAIProvider None = ''gpt-4o''"
  using getModel_precedence[where p = initializedOpenAI and userModel = "Some ''gpt-4o-mini''"
      and q = initializedAzure]
    getModel_precedence[where p = initializedOpenAI and userModel = None
      and q = initializedAzure]
    getModel_precedence[where p = new_OpenAIProvider and userModel = None
      and q = new_AzureOpenAIProvider]
  by (simp add: initializedOpenAI_def initializedAzure_def new_OpenAIProvider_def
      new_AzureOpenAIProvider_def emptyBlock_def azureBlock_def)

text \<open>
  An override is supplied, the empty string, and the model of the request is the
  configured one.
\<close>

theorem getModel_counterexample:
  "OpenAI_getModel initializedOpenAI (Some []) = ''gpt-4''"
  by code_simp

lemma getModel_empty:
  "OpenAI_getModel p (Some []) = OpenAI_getModel p None"
  "Azure_getModel q (Some []) = Azure_getModel q None"
  by (simp_all add: OpenAI_getModel_def Azure_getModel_def orElse_def)

lemma getModel_fallthrough:
  "OpenAI_getModel p None =
     spec_fallthrough (Option.bind (oa_activeConfig p) model) ''gpt-3.5-turbo''"
  "Azure_getModel q None = spec_fallthrough (az_deploymentName q) ''gpt-4o''"
  by (simp_all add: OpenAI_getModel_def Azure_getModel_def orElse_def spec_fallthrough_def
      split: option.splits)

text \<open>
  Claim C10. For both provider clients in the sources, the empty string as per-call model
  override resolves the model as no override does: \<^verbatim>\<open>getModel\<close> gives the configured model
  (the deployment name for Azure) when that is present and not empty, else the fallback
  of the variant. So each of the four operations, called with the empty override, does
  what it does with no override: it throws what the initialization throws, or it
  returns the response to the request whose model is the configured one or the
  fallback, as the client has it after the initialization.
\<close>

theorem empty_override_is_no_override:
  "OpenAI_getModel p (Some []) =
     spec_fallthrough (Option.bind (oa_activeConfig p) model) ''gpt-3.5-turbo''
   \<and> OpenAI_getModel p None =
     spec_fallthrough (Option.bind (oa_activeConfig p) model) ''gpt-3.5-turbo''
   \<and> Azure_getModel q (Some []) = spec_fallthrough (az_deploymentName q) ''gpt-4o''
   \<and> Azure_getModel q None = spec_fallthrough (az_deploymentName q) ''gpt-4o''
   \<and> OpenAI_generate isUrl backend x (Some []) p s = OpenAI_generate isUrl backend x None p s
   \<and> OpenAI_explain isUrl backend x (Some []) p s = OpenAI_explain isUrl backend x None p s
   \<and> Azure_generate isUrl backend x (Some []) q s = Azure_generate isUrl backend x None q s
   \<and> Azure_explain isUrl backend x (Some []) q s = Azure_explain isUrl backend x None q s
   \<and> OpenAI_generate isUrl backend x (Some []) p s =
       (case OpenAI_initializeClient isUrl p s of
          (Inl e, p1, s1) \<Rightarrow> (Inl e, p1, s1)
        | (Inr u, p1, s1) \<Rightarrow>
            (case oa_openai p1 of
               None \<Rightarrow> (Inl (Error ''OpenAI client not initialized.''), p1, s1)
             | Some c \<Rightarrow>
                 (Inr (spec_response (backend c
                    \<lparr> req_model = spec_fallthrough (Option.bind (oa_activeConfig p1) model)
                                     ''gpt-3.5-turbo'',
                      messages = [(System, OPENAI_GENERATE_SYSTEM_PROMPT), (User, x)] \<rparr>)),
                  p1, s1)))
   \<and> OpenAI_explain isUrl backend x (Some []) p s =
       (case OpenAI_initializeClient isUrl p s of
          (Inl e, p1, s1) \<Rightarrow> (Inl e, p1, s1)
        | (Inr u, p1, s1) \<Rightarrow>
            (case oa_openai p1 of
               None \<Rightarrow> (Inl (Error ''OpenAI client not initialized.''), p1, s1)
             | Some c \<Rightarrow>
                 (Inr (spec_response (backend c
                    \<lparr> req_model = spec_fallthrough (Option.bind (oa_activeConfig p1) model)
                                     ''gpt-3.5-turbo'',
                      messages = [(System, EXPLAIN_SYSTEM_PROMPT),
                                  (User, ''Explain the following command: '' @ x)] \<rparr>)),
                  p1, s1)))
   \<and> Azure_generate isUrl backend x (Some []) q s =
       (case Azure_initializeClient isUrl q s of
          (Inl e, q1, s1) \<Rightarrow> (Inl e, q1, s1)
        | (Inr u, q1, s1) \<Rightarrow>
            (case az_client q1 of
               None \<Rightarrow> (Inl (Error ''Azure OpenAI client is not initialized.''), q1, s1)
             | Some c \<Rightarrow>
                 (Inr (spec_response (backend c
                    \<lparr> req_model = spec_fallthrough (az_deploymentName q1) ''gpt-4o'',
                      messages = [(System, AZURE_GENERATE_SYSTEM_PROMPT), (User, x)] \<rparr>)),
                  q1, s1)))
   \<and> Azure_explain isUrl backend x (Some []) q s =
       (case Azure_initializeClient isUrl q s of
          (Inl e, q1, s1) \<Rightarrow> (Inl e, q1, s1)
        | (Inr u, q1, s1) \<Rightarrow>
            (case az_client q1 of
               None \<Rightarrow> (Inl (Error ''Azure OpenAI client not initialized.''), q1, s1)
             | Some c \<Rightarrow>
                 (Inr (spec_response (backend c
                    \<lparr> req_model = spec_fallthrough (az_deploymentName q1) ''gpt-4o'',
                      messages = [(System, EXPLAIN_SYSTEM_PROMPT),
                                  (User, ''Explain the following command: '' @ x)] \<rparr>)),
                  q1, s1)))"
  unfolding OpenAI_generate_def OpenAI_explain_def Azure_generate_def Azure_explain_def
    getModel_empty getModel_fallthrough tryCreate_spec
  by simp

text \<open>
  An initialized OpenAI client with the configured model \<^verbatim>\<open>gpt-4\<close>, and a first run of the
  Azure client on a stored configuration with the deployment \<^verbatim>\<open>down\<close>, for which the
  sample backend fails: with the empty override the request carries the configured
  model.
\<close>

theorem empty_override_witness:
  "OpenAI_getModel initializedOpenAI (Some []) = ''gpt-4''
   \<and> OpenAI_getModel new_OpenAIProvider (Some []) = ''gpt-3.5-turbo''
   \<and> Azure_getModel initializedAzure (Some []) = ''gpt-4o-deploy''
   \<and> Azure_getModel new_AzureOpenAIProvider (Some []) = ''gpt-4o''
   \<and> fst (OpenAI_generate sampleUrlCheck sampleBackend ''list files'' (Some [])
             initializedOpenAI (startup emptyDisk)) =
       Inr (spec_response (sampleBackend (OpenAI ''sk-1'')
              \<lparr> req_model = ''gpt-4'',
                messages = [(System, OPENAI_GENERATE_SYSTEM_PROMPT), (User, ''list files'')] \<rparr>))
   \<and> fst (Azure_explain sampleUrlCheck sampleBackend ''ls -la'' (Some [])
             new_AzureOpenAIProvider (startup azureDownDisk)) =
       Inr \<lparr> content = None, error = Some ''Connection error.'', usage = None \<rparr>"
proof -
  have f: "spec_fallthrough (Option.bind (oa_activeConfig initializedOpenAI) model)
             ''gpt-3.5-turbo'' = ''gpt-4''"
    "spec_fallthrough (Option.bind (oa_activeConfig new_OpenAIProvider) model)
             ''gpt-3.5-turbo'' = ''gpt-3.5-turbo''"
    "spec_fallthrough (az_deploymentName initializedAzure) ''gpt-4o'' = ''gpt-4o-deploy''"
    "spec_fallthrough (az_deploymentName new_AzureOpenAIProvider) ''gpt-4o'' = ''gpt-4o''"
    by code_simp+
  have i: "OpenAI_initializeClient sampleUrlCheck initializedOpenAI (startup emptyDisk) =
             (Inr (), initializedOpenAI, startup emptyDisk)"
    by (simp add: OpenAI_initializeClient_def initializedOpenAI_def)
  have o: "oa_openai initializedOpenAI = Some (OpenAI ''sk-1'')"
    by (simp add: initializedOpenAI_def)
  have a: "(case Azure_initializeClient sampleUrlCheck new_AzureOpenAIProvider
                   (startup azureDownDisk) of
              (Inl e, q1, s1) \<Rightarrow> Inl e
            | (Inr u, q1, s1) \<Rightarrow>
                (case az_client q1 of
                   None \<Rightarrow> Inl (Error ''Azure OpenAI client not initialized.'')
                 | Some c \<Rightarrow>
                     Inr (spec_response (sampleBackend c
                        \<lparr> req_model = spec_fallthrough (az_deploymentName q1) ''gpt-4o'',
                          messages = [(System, EXPLAIN_SYSTEM_PROMPT),
                                      (User, ''Explain the following command: '' @ ''ls -la'')] \<rparr>))))
           = Inr \<lparr> content = None, error = Some ''Connection error.'', usage = None \<rparr>"
    by code_simp
  have g0: "OpenAI_generate sampleUrlCheck sampleBackend ''list files'' (Some [])
              initializedOpenAI (startup emptyDisk) =
       (case OpenAI_initializeClient sampleUrlCheck initializedOpenAI (startup emptyDisk) of
          (Inl e, p1, s1) \<Rightarrow> (Inl e, p1, s1)
        | (Inr u, p1, s1) \<Rightarrow>
            (case oa_openai p1 of
               None \<Rightarrow> (Inl (Error ''OpenAI client not initialized.''), p1, s1)
             | Some c \<Rightarrow>
                 (Inr (spec_response (sampleBackend c
                    \<lparr> req_model = spec_fallthrough (Option.bind (oa_activeConfig p1) model)
                                     ''gpt-3.5-turbo'',
                      messages = [(System, OPENAI_GENERATE_SYSTEM_PROMPT),
                                  (User, ''list files'')] \<rparr>)),
                  p1, s1)))"
    using empty_override_is_no_override[where p = initializedOpenAI and q = initializedAzure
        and isUrl = sampleUrlCheck and backend = sampleBackend and x = "''list files''"
        and s = "startup emptyDisk"]
    by blast
  have g: "fst (OpenAI_generate sampleUrlCheck sampleBackend ''list files'' (Some [])
             initializedOpenAI (startup emptyDisk)) =
       Inr (spec_response (sampleBackend (OpenAI ''sk-1'')
              \<lparr> req_model = ''gpt-4'',
                messages = [(System, OPENAI_GENERATE_SYSTEM_PROMPT), (User, ''list files'')] \<rparr>))"
    unfolding g0 by (simp add: i o f)
  have e0: "Azure_explain sampleUrlCheck sampleBackend ''ls -la'' (Some [])
              new_AzureOpenAIProvider (startup azureDownDisk) =
       (case Azure_initializeClient sampleUrlCheck new_AzureOpenAIProvider
               (startup azureDownDisk) of
          (Inl e, q1, s1) \<Rightarrow> (Inl e, q1, s1)
        | (Inr u, q1, s1) \<Rightarrow>
            (case az_client q1 of
               None \<Rightarrow> (Inl (Error ''Azure OpenAI client not initialized.''), q1, s1)
             | Some c \<Rightarrow>
                 (Inr (spec_response (sampleBackend c
                    \<lparr> req_model = spec_fallthrough (az_deploymentName q1) ''gpt-4o'',
                      messages = [(System, EXPLAIN_SYSTEM_PROMPT),
                                  (User, ''Explain the following command: '' @ ''ls -la'')] \<rparr>)),
                  q1, s1)))"
    using empty_override_is_no_override[where p = new_OpenAIProvider
        and q = new_AzureOpenAIProvider and isUrl = sampleUrlCheck and backend = sampleBackend
        and x = "''ls -la''" and s = "startup azureDownDisk"]
    by blast
  have e: "fst (Azure_explain sampleUrlCheck sampleBackend ''ls -la'' (Some [])
             new_AzureOpenAIProvider (startup azureDownDisk)) =
       Inr \<lparr> content = None, error = Some ''Connection error.'', usage = None \<rparr>"
    unfolding e0 using a by (auto split: prod.splits sum.splits option.splits)
  have m: "OpenAI_getModel initializedOpenAI (Some []) =
             spec_fallthrough (Option.bind (oa_activeConfig initializedOpenAI) model)
               ''gpt-3.5-turbo''"
    "Azure_getModel initializedAzure (Some []) =
       spec_fallthrough (az_deploymentName initializedAzure) ''gpt-4o''"
    using empty_override_is_no_override[where p = initializedOpenAI and q = initializedAzure
        and isUrl = sampleUrlCheck and backend = sampleBackend and x = "''ls -la''"
        and s = "startup emptyDisk"]
    by blast+
  have n: "OpenAI_getModel new_OpenAIProvider (Some []) =
             spec_fallthrough (Option.bind (oa_activeConfig new_OpenAIProvider) model)
               ''gpt-3.5-turbo''"
    "Azure_getModel new_AzureOpenAIProvider (Some []) =
       spec_fallthrough (az_deploymentName new_AzureOpenAIProvider) ''gpt-4o''"
    using empty_override_is_no_override[where p = new_OpenAIProvider
        and q = new_AzureOpenAIProvider and isUrl = sampleUrlCheck and backend = sampleBackend
        and x = "''ls -la''" and s = "startup emptyDisk"]
    by blast+
  show ?thesis
    using m n f g e by simp
qed

section \<open>The cached provider\<close>

text \<open>
  Claim C2. The orchestrator keeps one provider object. With an object cached and no
  explicit name, \<^verbatim>\<open>getInitializedLLMProvider\<close> returns that object and changes nothing:
  nothing is constructed and the configuration is not even loaded. With no object
  cached, or with an explicit name, it constructs a new object of the selected class
  (the named one, else the default provider of the loaded configuration) and caches it.
  Two calls in a row with the same explicit name construct two objects.
\<close>

theorem provider_cache:
  "(llmProvider orc = Some i \<longrightarrow>
      getInitializedLLMProvider isUrl None orc w = (Some i, orc, w))
   \<and> (llmProvider orc = None \<or> providerName \<noteq> None \<longrightarrow>
      getInitializedLLMProvider isUrl providerName orc w =
        (let fresh = \<lparr> inst_id = constructed w,
                       inst_obj = construct (case providerName of
                                               Some n \<Rightarrow> n
                                             | None \<Rightarrow> defaultProvider (loadedConfig isUrl (proc w))) \<rparr>
         in (Some fresh, orc\<lparr>llmProvider := Some fresh\<rparr>,
             w\<lparr>proc := snd (loadConfig isUrl (proc w)), constructed := Suc (constructed w)\<rparr>)))
   \<and> (let r1 = getInitializedLLMProvider isUrl (Some n) orc w;
           r2 = getInitializedLLMProvider isUrl (Some n) (fst (snd r1)) (snd (snd r1))
       in fst r1 = Some \<lparr> inst_id = constructed w, inst_obj = construct n \<rparr>
          \<and> fst r2 = Some \<lparr> inst_id = Suc (constructed w), inst_obj = construct n \<rparr>
          \<and> llmProvider (fst (snd r2)) = fst r2
          \<and> constructed (snd (snd r2)) = constructed w + 2)"
  by (auto simp: getInitializedLLMProvider_def getLLMProvider_def loadedConfig_def Let_def
      split: prod.splits option.splits)

theorem provider_cache_witness:
  "getInitializedLLMProvider sampleUrlCheck None cachedOrchestrator cachedRuntime =
     (Some \<lparr> inst_id = 0, inst_obj = LocalObj \<rparr>, cachedOrchestrator, cachedRuntime)
   \<and> fst (getInitializedLLMProvider sampleUrlCheck None new_Orchestrator freshRuntime) =
       Some \<lparr> inst_id = 0, inst_obj = OpenAIObj new_OpenAIProvider \<rparr>
   \<and> fst (getInitializedLLMProvider sampleUrlCheck (Some P_local) cachedOrchestrator
            cachedRuntime) =
       Some \<lparr> inst_id = 1, inst_obj = LocalObj \<rparr>
   \<and> constructed (snd (snd (getInitializedLLMProvider sampleUrlCheck (Some P_local)
         cachedOrchestrator cachedRuntime))) = 2"
proof -
  have c: "llmProvider cachedOrchestrator = Some \<lparr> inst_id = 0, inst_obj = LocalObj \<rparr>"
    by (simp add: cachedOrchestrator_def)
  have n: "llmProvider new_Orchestrator = None" by (simp add: new_Orchestrator_def)
  have k: "constructed freshRuntime = 0" "constructed cachedRuntime = 1"
    by (simp_all add: freshRuntime_def cachedRuntime_def)
  have d: "defaultProvider (loadedConfig sampleUrlCheck (proc freshRuntime)) = P_openai"
    by code_simp
  have 1: "getInitializedLLMProvider sampleUrlCheck None cachedOrchestrator cachedRuntime =
     (Some \<lparr> inst_id = 0, inst_obj = LocalObj \<rparr>, cachedOrchestrator, cachedRuntime)"
    using provider_cache[where orc = cachedOrchestrator and isUrl = sampleUrlCheck
        and w = cachedRuntime] c by blast
  have 2: "fst (getInitializedLLMProvider sampleUrlCheck None new_Orchestrator freshRuntime) =
       Some \<lparr> inst_id = 0, inst_obj = OpenAIObj new_OpenAIProvider \<rparr>"
    using provider_cache[where orc = new_Orchestrator and isUrl = sampleUrlCheck
        and w = freshRuntime and providerName = None] n k d
    by (simp add: Let_def)
  have 3: "fst (getInitializedLLMProvider sampleUrlCheck (Some P_local) cachedOrchestrator
                  cachedRuntime) =
       Some \<lparr> inst_id = 1, inst_obj = LocalObj \<rparr>
     \<and> constructed (snd (snd (getInitializedLLMProvider sampleUrlCheck (Some P_local)
         cachedOrchestrator cachedRuntime))) = 2"
    using provider_cache[where orc = cachedOrchestrator and isUrl = sampleUrlCheck
        and w = cachedRuntime and providerName = "Some P_local"] k
    by (simp add: Let_def)
  show ?thesis using 1 2 3 by blast
qed

section \<open>Classification of provider results\<close>

text \<open>The report of each handler is the classification of what the provider call gave.\<close>

lemma handleExplainCommand_report:
  assumes "getInitializedLLMProvider isUrl (provider_arg args) orc w = (Some llm, orc1, w1)"
  shows "fst (handleExplainCommand isUrl backend localExplain args orc w) =
           explainOutcome (fst (provider_explain isUrl backend localExplain
              (commandToExplain args) None (inst_obj llm) (proc w1)))"
  using assms by (simp add: handleExplainCommand_def split: prod.splits)

lemma handleGenerationPrompt_report:
  assumes "getInitializedLLMProvider isUrl None (orchestrator sess) w = (Some llm, orc1, w1)"
  shows "fst (handleGenerationPrompt isUrl backend localGenerate prompt sess w) =
           generationOutcome (fst (provider_generate isUrl backend localGenerate
              prompt None (inst_obj llm) (proc w1)))"
  using assms by (simp add: handleGenerationPrompt_def split: prod.splits)

text \<open>
  Claim C6, as the code has it. A result whose error is set and not empty is reported as
  a failure with that error. Otherwise a result with absent or empty content is the soft
  outcome (no explanation; no command, with a fixed message), and a result with
  non-empty content is the success with that content, except that on the generate path
  content that starts with \<^verbatim>\<open>error:\<close> in any letter case is the soft outcome, with the
  content as message.
\<close>

theorem outcome_classification:
  "(truthy (error r) \<longrightarrow>
      explainOutcome (Inr r) = LLMError (the (error r))
      \<and> generationOutcome (Inr r) = GenLLMError (the (error r)))
   \<and> (\<not> truthy (error r) \<and> \<not> truthy (content r) \<longrightarrow>
      explainOutcome (Inr r) = NoExplanation
      \<and> generationOutcome (Inr r) = CouldNotGenerate ''No specific error message.'')
   \<and> (\<not> truthy (error r) \<and> truthy (content r) \<longrightarrow>
      explainOutcome (Inr r) = Explanation (the (content r))
      \<and> generationOutcome (Inr r) =
          (if startsWith (toLowerCase (the (content r))) ''error:''
           then CouldNotGenerate (the (content r)) else Suggested (the (content r))))"
  by (cases "error r"; cases "content r")
     (auto simp: explainOutcome_def generationOutcome_def orElse_def)

text \<open>
  An empty completion is the soft outcome of \<^verbatim>\<open>explain\<close>; the failure marker of the system
  prompt is the soft outcome of \<^verbatim>\<open>generate\<close>; a command is a suggestion; an error message
  is a failure.
\<close>

theorem outcome_classification_witness:
  "explainOutcome (Inr \<lparr> content = Some [], error = None, usage = None \<rparr>) = NoExplanation
   \<and> generationOutcome
       (Inr \<lparr> content = Some ''Error: Cannot generate command.'', error = None, usage = None \<rparr>)
     = CouldNotGenerate ''Error: Cannot generate command.''
   \<and> generationOutcome (Inr \<lparr> content = Some ''ls -la'', error = None, usage = None \<rparr>)
     = Suggested ''ls -la''
   \<and> explainOutcome (Inr \<lparr> content = None, error = Some ''Connection error.'', usage = None \<rparr>)
     = LLMError ''Connection error.''"
  using outcome_classification[of "\<lparr> content = Some [], error = None, usage = None \<rparr>"]
    outcome_classification[of "\<lparr> content = Some ''Error: Cannot generate command.'',
                                  error = None, usage = None \<rparr>"]
    outcome_classification[of "\<lparr> content = Some ''ls -la'', error = None, usage = None \<rparr>"]
    outcome_classification[of "\<lparr> content = None, error = Some ''Connection error.'',
                                  usage = None \<rparr>"]
  by (simp add: startsWith_def toLowerCase_def toLowerChar_def)

text \<open>
  The error of the result is set, to the empty string, and the result is not reported as
  a failure.
\<close>

theorem outcome_counterexample:
  "explainOutcome (Inr \<lparr> content = None, error = Some [], usage = None \<rparr>) = NoExplanation
   \<and> generationOutcome (Inr \<lparr> content = None, error = Some [], usage = None \<rparr>) =
       CouldNotGenerate ''No specific error message.''"
  by code_simp

end
